theory Spec2Isabelle
  imports Complex_Main "HOL-Library.Multiset" "HOL-Library.Log_Nat"
begin

section \<open>JavaScript values\<close>

text \<open>
  The source is JavaScript. The values that reach the functions below are primitives
  (\<open>undefined\<close>, \<open>null\<close>, booleans, numbers, strings), arrays and plain objects.
  A number is a double: \<open>NaN\<close>, the two infinities, or a finite value, which is a
  rational (\<open>+0\<close> and \<open>-0\<close> are both \<open>Fin 0\<close>; the code below cannot tell
  them apart).
\<close>

datatype jsnum = NaN | PInfinity | NInfinity | Fin rat

datatype jsval = JUndefined | JNull | JBool bool | JNum jsnum | JStr string

text \<open>Truthiness, as used by \<open>!x\<close>, \<open>x && y\<close>, \<open>x || y\<close> and \<open>if (x)\<close>.\<close>

fun truthy :: "jsval \<Rightarrow> bool" where
  "truthy JUndefined = False"
| "truthy JNull = False"
| "truthy (JBool b) = b"
| "truthy (JNum n) = (n \<noteq> NaN \<and> n \<noteq> Fin 0)"
| "truthy (JStr s) = (s \<noteq> [])"

text \<open>Equality of two numbers: \<open>NaN\<close> is equal to nothing, itself included.\<close>

definition num_eq :: "jsnum \<Rightarrow> jsnum \<Rightarrow> bool" where
  "num_eq a b = (a \<noteq> NaN \<and> b \<noteq> NaN \<and> a = b)"

text \<open>\<open>x === y\<close>\<close>

fun strict_eq :: "jsval \<Rightarrow> jsval \<Rightarrow> bool" where
  "strict_eq (JNum a) (JNum b) = num_eq a b"
| "strict_eq x y = (x = y)"

definition bool_num :: "bool \<Rightarrow> jsnum" where
  "bool_num b = (if b then Fin 1 else Fin 0)"

text \<open>
  \<open>x == y\<close> on primitives. The conversion of a string to a number (\<open>Number(s)\<close>,
  a floating-point parse) is a parameter \<open>N\<close>.
\<close>

fun loose_eq :: "(string \<Rightarrow> jsnum) \<Rightarrow> jsval \<Rightarrow> jsval \<Rightarrow> bool" where
  "loose_eq N JUndefined y = (y = JUndefined \<or> y = JNull)"
| "loose_eq N JNull y = (y = JUndefined \<or> y = JNull)"
| "loose_eq N (JNum a) (JNum b) = num_eq a b"
| "loose_eq N (JNum a) (JStr s) = num_eq a (N s)"
| "loose_eq N (JNum a) (JBool b) = num_eq a (bool_num b)"
| "loose_eq N (JNum a) y = False"
| "loose_eq N (JStr s) (JStr t) = (s = t)"
| "loose_eq N (JStr s) (JNum b) = num_eq (N s) b"
| "loose_eq N (JStr s) (JBool b) = num_eq (N s) (bool_num b)"
| "loose_eq N (JStr s) y = False"
| "loose_eq N (JBool a) (JBool b) = (a = b)"
| "loose_eq N (JBool a) (JNum b) = num_eq (bool_num a) b"
| "loose_eq N (JBool a) (JStr s) = num_eq (bool_num a) (N s)"
| "loose_eq N (JBool a) y = False"

text \<open>\<open>typeof x === 'string'\<close> and \<open>typeof x === 'number'\<close>\<close>

fun is_string :: "jsval \<Rightarrow> bool" where
  "is_string (JStr s) = True"
| "is_string x = False"

fun is_number :: "jsval \<Rightarrow> bool" where
  "is_number (JNum n) = True"
| "is_number x = False"

text \<open>\<open>a ?? b\<close> on an optional field: \<open>None\<close> is the absent (undefined) property.\<close>

fun nullish :: "'a option \<Rightarrow> 'a option \<Rightarrow> 'a option" where
  "nullish None b = b"
| "nullish (Some a) b = Some a"

text \<open>
  \<open>new Map(entries)\<close> followed by \<open>get\<close>: entries are inserted in order, a later
  entry with the same key replaces an earlier one.
\<close>

definition js_Map :: "('k \<times> 'v) list \<Rightarrow> ('k \<rightharpoonup> 'v)" where
  "js_Map entries = fold (\<lambda>(k, v) m. m(k \<mapsto> v)) entries Map.empty"

section \<open>What the source takes from outside\<close>

text \<open>
  \<open>util/Constants.js\<close> is not among the sources: the three enumeration tables it
  exports are parameters. Each is an object indexed in both directions
  (\<open>ApplicationCommandTypes[data.type]\<close> decodes a wire code into a name at line 59,
  \<open>ApplicationCommandTypes[this.type]\<close> encodes the name again at line 571), so a
  table is the function from a property key to the value stored under it
  (\<open>JUndefined\<close> when there is none). \<open>Number\<close> is JavaScript's conversion of a
  string to a number.
\<close>

record env =
  ApplicationCommandOptionTypes :: "jsval \<Rightarrow> jsval"
  ApplicationCommandTypes :: "jsval \<Rightarrow> jsval"
  ChannelTypes :: "jsval \<Rightarrow> jsval"
  Number :: "string \<Rightarrow> jsnum"

section \<open>Data model\<close>

type_synonym Snowflake = string

text \<open>\<open>ApplicationCommandOptionChoice\<close>: a name and a value (string or number).\<close>

record ApplicationCommandOptionChoice =
  choice_name :: string
  choice_value :: jsval

text \<open>
  An option object, in any of the shapes the source handles: the model shape
  (\<open>ApplicationCommandOption\<close>: symbolic type, \<open>channelTypes\<close>, \<open>minValue\<close>,
  \<open>maxValue\<close>), the wire shape (\<open>APIApplicationCommandOption\<close>: integer type,
  \<open>channel_types\<close>, \<open>min_value\<close>, \<open>max_value\<close>) and the caller's
  \<open>ApplicationCommandOptionData\<close>, which may use either spelling. An optional property
  is \<open>None\<close> when it is absent or undefined.
\<close>

datatype ApplicationCommandOption = ApplicationCommandOption
  (opt_type: jsval)
  (opt_name: string)
  (opt_description: string)
  (opt_required: "bool option")
  (opt_autocomplete: "bool option")
  (opt_choices: "ApplicationCommandOptionChoice list option")
  (opt_options: "ApplicationCommandOption list option")
  (opt_channelTypes: "jsval list option")
  (opt_channel_types: "jsval list option")
  (opt_minValue: "jsnum option")
  (opt_min_value: "jsnum option")
  (opt_maxValue: "jsnum option")
  (opt_max_value: "jsnum option")

record Client =
  session_id :: "string option"

text \<open>
  A command: the \<open>ApplicationCommand\<close> instance (\<open>this\<close>) or the object it is
  compared with (\<open>ApplicationCommand | ApplicationCommandData | APIApplicationCommand\<close>).
  \<open>None\<close> is an absent property, which is what \<open>'description' in command\<close> tests.
\<close>

record ApplicationCommand =
  cmd_client :: Client
  cmd_id :: "Snowflake option"
  cmd_applicationId :: "Snowflake option"
  cmd_type :: jsval
  cmd_name :: string
  cmd_description :: "string option"
  cmd_version :: "Snowflake option"
  cmd_autocomplete :: "bool option"
  cmd_options :: "ApplicationCommandOption list option"
  cmd_defaultPermission :: "bool option"
  cmd_default_permission :: "bool option"

record User =
  user_id :: Snowflake

record Message =
  msg_id :: Snowflake
  msg_author :: User
  msg_guildId :: "Snowflake option"
  msg_channelId :: Snowflake

section \<open>The request body\<close>

text \<open>
  An entry of \<open>data.options\<close>: \<open>{type, name, value}\<close> for a value, or
  \<open>{type, name, options}\<close> for the subcommand that wraps the values.
\<close>

datatype InteractionOption =
  OptionValue jsval string jsval
| OptionGroup jsval string "InteractionOption list"

record InteractionData =
  data_version :: "Snowflake option"
  data_id :: "Snowflake option"
  data_name :: string
  data_type :: jsval
  data_options :: "InteractionOption list option"
  data_target_id :: "Snowflake option"

record InteractionBody =
  body_type :: nat
  body_application_id :: "Snowflake option"
  body_guild_id :: "Snowflake option"
  body_channel_id :: Snowflake
  body_session_id :: "string option"
  body_data :: InteractionData

text \<open>
  What a send method does: it returns \<open>false\<close> without a request, or it posts one body
  to the interactions endpoint and returns \<open>true\<close>.
\<close>

datatype send_result = Returned_false | Posted InteractionBody

section \<open>sendContextMenu\<close>

text \<open>
  Lines 589-614. The guard of line 590 is \<open>(!message) instanceof Message && ...\<close>, a
  boolean tested with \<open>instanceof\<close>: it is always false and nothing is thrown.
\<close>

definition sendContextMenu ::
  "env \<Rightarrow> ApplicationCommand \<Rightarrow> Message \<Rightarrow> bool \<Rightarrow> send_result" where
  "sendContextMenu env this message sendFromMessage =
     (if loose_eq (Number env) (cmd_type this) (JStr ''CHAT_INPUT'') then Returned_false
      else Posted \<lparr>
        body_type = 2,
        body_application_id = cmd_applicationId this,
        body_guild_id = msg_guildId message,
        body_channel_id = msg_channelId message,
        body_session_id = session_id (cmd_client this),
        body_data = \<lparr>
          data_version = cmd_version this,
          data_id = cmd_id this,
          data_name = cmd_name this,
          data_type = ApplicationCommandTypes env (cmd_type this),
          data_options = None,
          data_target_id = Some
            (if loose_eq (Number env) (ApplicationCommandTypes env (cmd_type this)) (JNum (Fin 1))
             then user_id (msg_author message)
             else msg_id message) \<rparr> \<rparr>)"

section \<open>transformOption\<close>

text \<open>
  Lines 410-443. The result object has the \<open>channelTypes\<close>, \<open>minValue\<close>,
  \<open>maxValue\<close> properties when \<open>received\<close>, and the \<open>channel_types\<close>,
  \<open>min_value\<close>, \<open>max_value\<close> ones otherwise (computed property keys); the other
  spelling is absent from it.
\<close>

fun transformOption :: "env \<Rightarrow> ApplicationCommandOption \<Rightarrow> bool \<Rightarrow> ApplicationCommandOption" where
  "transformOption env
     (ApplicationCommandOption type name description required autocomplete choices options
        channelTypes channel_types minValue min_value maxValue max_value) received =
     (let stringType =
            (if is_string type then type else ApplicationCommandOptionTypes env type);
          channelTypesValue =
            (if received then map_option (map (ChannelTypes env)) channel_types
             else nullish
                    (map_option (map (\<lambda>t. if is_string t then ChannelTypes env t else t))
                       channelTypes)
                    channel_types);
          minValueValue = nullish minValue min_value;
          maxValueValue = nullish maxValue max_value
      in ApplicationCommandOption
           (if is_number type \<and> \<not> received then type
            else ApplicationCommandOptionTypes env type)
           name
           description
           (nullish required
              (if stringType = JStr ''SUB_COMMAND'' \<or> stringType = JStr ''SUB_COMMAND_GROUP''
               then None else Some False))
           autocomplete
           choices
           (map_option (map (\<lambda>sub. transformOption env sub received)) options)
           (if received then channelTypesValue else None)
           (if received then None else channelTypesValue)
           (if received then minValueValue else None)
           (if received then None else minValueValue)
           (if received then maxValueValue else None)
           (if received then None else maxValueValue))"

section \<open>The equality engine\<close>

text \<open>An optional number read as a value: the absent property reads \<open>undefined\<close>.\<close>

fun num_val :: "jsnum option \<Rightarrow> jsval" where
  "num_val None = JUndefined"
| "num_val (Some n) = JNum n"

text \<open>
  Lines 288-302 and 315-378; \<open>optionEquals\<close> is the source's \<open>_optionEquals\<close>.
  \<open>existing.every((option, index) => f(option, options[index]))\<close> runs after the two
  lengths were found equal, so it compares the two arrays position by position. Where the
  source reads \<open>option.choices\<close>, \<open>option.channelTypes ?? option.channel_types\<close> or
  \<open>option.options\<close> after the test of lines 320-337, the property is there (its length
  was just found equal to a defined one); the \<open>None\<close> branches of the model are never
  taken.
\<close>

function optionEquals ::
    "env \<Rightarrow> ApplicationCommandOption \<Rightarrow> ApplicationCommandOption \<Rightarrow> bool \<Rightarrow> bool"
  and optionsEqual ::
    "env \<Rightarrow> ApplicationCommandOption list \<Rightarrow> ApplicationCommandOption list \<Rightarrow> bool \<Rightarrow> bool"
  where
  "optionEquals env existing opt enforceOptionOrder =
     (let optionType =
            (if is_string (opt_type opt) then opt_type opt
             else ApplicationCommandOptionTypes env (opt_type opt))
      in
      if opt_name opt \<noteq> opt_name existing
         \<or> \<not> strict_eq optionType (opt_type existing)
         \<or> opt_description opt \<noteq> opt_description existing
         \<or> opt_autocomplete opt \<noteq> opt_autocomplete existing
         \<or> nullish (opt_required opt)
              (if optionType \<in> {JStr ''SUB_COMMAND'', JStr ''SUB_COMMAND_GROUP''}
               then None else Some False) \<noteq> opt_required existing
         \<or> map_option length (opt_choices opt) \<noteq> map_option length (opt_choices existing)
         \<or> map_option length (opt_options opt) \<noteq> map_option length (opt_options existing)
         \<or> map_option length (nullish (opt_channelTypes opt) (opt_channel_types opt))
              \<noteq> map_option length (opt_channelTypes existing)
         \<or> \<not> strict_eq (num_val (nullish (opt_minValue opt) (opt_min_value opt)))
                (num_val (opt_minValue existing))
         \<or> \<not> strict_eq (num_val (nullish (opt_maxValue opt) (opt_max_value opt)))
                (num_val (opt_maxValue existing))
      then False
      else if (case opt_choices existing of
                 None \<Rightarrow> False
               | Some existing_choices \<Rightarrow>
                   (case opt_choices opt of
                      None \<Rightarrow> True
                    | Some option_choices \<Rightarrow>
                        if enforceOptionOrder
                        then \<not> list_all2
                               (\<lambda>choice c. choice_name choice = choice_name c
                                  \<and> strict_eq (choice_value choice) (choice_value c))
                               existing_choices option_choices
                        else (let newChoices =
                                    js_Map (map (\<lambda>choice. (choice_name choice, choice)) option_choices)
                              in \<not> list_all
                                     (\<lambda>choice.
                                        case newChoices (choice_name choice) of
                                          None \<Rightarrow> False
                                        | Some foundChoice \<Rightarrow>
                                            strict_eq (choice_value foundChoice) (choice_value choice))
                                     existing_choices)))
      then False
      else if (case opt_channelTypes existing of
                 None \<Rightarrow> False
               | Some existing_channelTypes \<Rightarrow>
                   (case nullish (opt_channelTypes opt) (opt_channel_types opt) of
                      None \<Rightarrow> True
                    | Some option_channelTypes \<Rightarrow>
                        (let newTypes =
                               map (\<lambda>t. if is_number t then ChannelTypes env t else t)
                                 option_channelTypes
                         in \<not> list_all (\<lambda>t. t \<in> set newTypes) existing_channelTypes)))
      then False
      else (case opt_options existing of
              None \<Rightarrow> True
            | Some existing_options \<Rightarrow>
                (case opt_options opt of
                   None \<Rightarrow> False
                 | Some option_options \<Rightarrow>
                     optionsEqual env existing_options option_options enforceOptionOrder)))"
| "optionsEqual env existing options enforceOptionOrder =
     (if length existing \<noteq> length options then False
      else if enforceOptionOrder
      then list_all2 (\<lambda>opt candidate. optionEquals env opt candidate enforceOptionOrder)
             existing options
      else (let newOptions = js_Map (map (\<lambda>opt. (opt_name opt, opt)) options)
            in list_all
                 (\<lambda>opt. case newOptions (opt_name opt) of
                          None \<Rightarrow> False
                        | Some foundOption \<Rightarrow> optionEquals env opt foundOption False)
                 existing))"
  by pat_completeness auto

termination
proof (relation "measure (\<lambda>p. case p of
          Inl (env, existing, opt, b) \<Rightarrow> 2 * size existing
        | Inr (env, existing, options, b) \<Rightarrow> 2 * size_list size existing + 1)")
  show "wf (measure (\<lambda>p. case p of
          Inl (env, existing, opt, b) \<Rightarrow> 2 * size existing
        | Inr (env, existing, options, b) \<Rightarrow> 2 * size_list size existing + 1))"
    by simp
next
  fix env :: env and existing opt :: ApplicationCommandOption and enforceOptionOrder :: bool
    and x2 x2a
  assume "opt_options existing = Some x2"
  then have "size_list size x2 < size existing"
    by (cases existing) simp
  then show "(Inr (env, x2, x2a, enforceOptionOrder), Inl (env, existing, opt, enforceOptionOrder))
      \<in> measure (\<lambda>p. case p of
          Inl (env, existing, opt, b) \<Rightarrow> 2 * size existing
        | Inr (env, existing, options, b) \<Rightarrow> 2 * size_list size existing + 1)"
    by simp
next
  fix env :: env and existing options :: "ApplicationCommandOption list"
    and enforceOptionOrder :: bool and z :: ApplicationCommandOption and za :: ApplicationCommandOption
  assume "z \<in> set existing"
  then show "(Inl (env, z, za, enforceOptionOrder), Inr (env, existing, options, enforceOptionOrder))
      \<in> measure (\<lambda>p. case p of
          Inl (env, existing, opt, b) \<Rightarrow> 2 * size existing
        | Inr (env, existing, options, b) \<Rightarrow> 2 * size_list size existing + 1)"
    using size_list_estimation' [of z existing "size z" size] by simp
next
  fix env :: env and existing options :: "ApplicationCommandOption list"
    and enforceOptionOrder :: bool and xa :: ApplicationCommandOption and z x2
  assume "z \<in> set existing"
  then show "(Inl (env, z, x2, False), Inr (env, existing, options, enforceOptionOrder))
      \<in> measure (\<lambda>p. case p of
          Inl (env, existing, opt, b) \<Rightarrow> 2 * size existing
        | Inr (env, existing, options, b) \<Rightarrow> 2 * size_list size existing + 1)"
    using size_list_estimation' [of z existing "size z" size] by simp
qed

text \<open>
  Lines 243-276. \<open>optionsEqual\<close> reads \<open>existing.length\<close> first: with
  \<open>this.options\<close> undefined that is a \<open>TypeError\<close>.
\<close>

datatype error =
  TypeError_undefined
| TypeError_not_a_string jsval
| Error_invalid_choice string "ApplicationCommandOptionChoice list"
| Error_value_required_missing

definition equals ::
  "env \<Rightarrow> ApplicationCommand \<Rightarrow> ApplicationCommand \<Rightarrow> bool \<Rightarrow> error + bool" where
  "equals env this command enforceOptionOrder =
     (if (case cmd_id command of None \<Rightarrow> False | Some i \<Rightarrow> i \<noteq> [])
         \<and> cmd_id this \<noteq> cmd_id command
      then Inr False
      else
        (let commandType =
               (if is_string (cmd_type command) then cmd_type command
                else ApplicationCommandTypes env (cmd_type command))
         in
         if cmd_name command \<noteq> cmd_name this
            \<or> (cmd_description command \<noteq> None
                \<and> cmd_description command \<noteq> cmd_description this)
            \<or> (cmd_version command \<noteq> None \<and> cmd_version command \<noteq> cmd_version this)
            \<or> (cmd_autocomplete command \<noteq> None
                \<and> cmd_autocomplete command \<noteq> cmd_autocomplete this)
            \<or> (truthy commandType \<and> \<not> strict_eq commandType (cmd_type this))
            \<or> (case cmd_options command of None \<Rightarrow> 0 | Some os \<Rightarrow> length os)
               \<noteq> (case cmd_options this of None \<Rightarrow> 0 | Some os \<Rightarrow> length os)
            \<or> nullish (cmd_defaultPermission command)
                 (nullish (cmd_default_permission command) (Some True))
               \<noteq> cmd_defaultPermission this
         then Inr False
         else (case cmd_options command of
                 None \<Rightarrow> Inr True
               | Some command_options \<Rightarrow>
                   (case cmd_options this of
                      None \<Rightarrow> Inl TypeError_undefined
                    | Some this_options \<Rightarrow>
                        Inr (optionsEqual env this_options command_options
                               enforceOptionOrder)))))"

section \<open>sendSlashCommand\<close>

text \<open>
  Lines 493-513, and again lines 518-548 with \<open>subCommand.options[i]\<close> in the place of
  \<open>this.options[i]\<close>: the choice of a token, then the entry pushed to
  \<open>optionFormat\<close>.
\<close>

definition find_choice ::
  "env \<Rightarrow> ApplicationCommandOptionChoice list \<Rightarrow> string \<Rightarrow> ApplicationCommandOptionChoice option" where
  "find_choice env choices v =
     (case find (\<lambda>c. choice_name c = v) choices of
        Some c \<Rightarrow> Some c
      | None \<Rightarrow> find (\<lambda>c. loose_eq (Number env) (choice_value c) (JStr v)) choices)"

definition coerce :: "env \<Rightarrow> ApplicationCommandOption \<Rightarrow> string \<Rightarrow> jsval" where
  "coerce env opt v =
     (if loose_eq (Number env) (opt_type opt) (JStr ''INTEGER'') then JNum (Number env v)
      else if loose_eq (Number env) (opt_type opt) (JStr ''BOOLEAN'') then JBool (v \<noteq> [])
      else JStr v)"

definition option_data ::
  "env \<Rightarrow> ApplicationCommandOption \<Rightarrow> string \<Rightarrow> error + InteractionOption" where
  "option_data env opt v =
     (let choices = (case opt_choices opt of None \<Rightarrow> [] | Some cs \<Rightarrow> cs);
          choice = (if length choices > 0 then find_choice env choices v else None)
      in if length choices > 0 \<and> choice = None then Inl (Error_invalid_choice v choices)
         else Inr (OptionValue
                (ApplicationCommandOptionTypes env (opt_type opt))
                (opt_name opt)
                (case choice of
                   None \<Rightarrow> coerce env opt v
                 | Some c \<Rightarrow> if truthy (choice_value c) then choice_value c
                            else coerce env opt v)))"

text \<open>
  The loop of lines 482-550, from position \<open>i\<close> with \<open>optionFormat\<close> built so far.
  \<open>subCommand\<close> is \<open>None\<close> while the variable is undefined.
\<close>

function slash_loop ::
  "env \<Rightarrow> ApplicationCommandOption list \<Rightarrow> bool \<Rightarrow> ApplicationCommandOption option
   \<Rightarrow> jsval list \<Rightarrow> nat \<Rightarrow> InteractionOption list \<Rightarrow> error + InteractionOption list" where
  "slash_loop env this_options subCommandCheck subCommand options i optionFormat =
     (if i < length options then
        (case options ! i of
           JStr v \<Rightarrow>
             if \<not> subCommandCheck \<and> \<not> i < length this_options
             then slash_loop env this_options subCommandCheck subCommand options (Suc i) optionFormat
             else if subCommandCheck
                     \<and> (case subCommand of
                           None \<Rightarrow> False
                         | Some sc \<Rightarrow>
                             (case opt_options sc of
                                None \<Rightarrow> False
                              | Some sub_options \<Rightarrow> \<not> i < length sub_options))
             then slash_loop env this_options subCommandCheck subCommand options (Suc i) optionFormat
             else if \<not> subCommandCheck
             then (case option_data env (this_options ! i) v of
                     Inl e \<Rightarrow> Inl e
                   | Inr data \<Rightarrow>
                       slash_loop env this_options subCommandCheck subCommand options (Suc i)
                         (optionFormat @ [data]))
             else if v = []
             then slash_loop env this_options subCommandCheck subCommand options (Suc i) optionFormat
             else (case subCommand of
                     None \<Rightarrow> Inl TypeError_undefined
                   | Some sc \<Rightarrow>
                       (case opt_options sc of
                          None \<Rightarrow> Inl TypeError_undefined
                        | Some sub_options \<Rightarrow>
                            (case option_data env (sub_options ! i) v of
                               Inl e \<Rightarrow> Inl e
                             | Inr data \<Rightarrow>
                                 slash_loop env this_options subCommandCheck subCommand options
                                   (Suc i) (optionFormat @ [data]))))
         | value \<Rightarrow> Inl (TypeError_not_a_string value))
      else Inr optionFormat)"
  by pat_completeness auto

termination
  by (relation "measure (\<lambda>(env, this_options, subCommandCheck, subCommand, options, i, optionFormat).
        length options - i)") auto

text \<open>
  The state a call leaves behind: what it returned or threw, the caller's \<open>options\<close>
  array and the command. The function assigns to its own \<open>optionFormat\<close>, \<open>option_\<close>
  and \<open>i\<close>, and calls \<open>options.shift()\<close> on the caller's array (line 473).
\<close>

record slash_outcome =
  out_result :: "error + send_result"
  out_options :: "jsval list"
  out_this :: ApplicationCommand

definition interaction_body ::
  "env \<Rightarrow> ApplicationCommand \<Rightarrow> Message \<Rightarrow> InteractionOption list \<Rightarrow> InteractionBody" where
  "interaction_body env this message option_list =
     \<lparr> body_type = 2,
       body_application_id = cmd_applicationId this,
       body_guild_id = msg_guildId message,
       body_channel_id = msg_channelId message,
       body_session_id = session_id (cmd_client this),
       body_data = \<lparr>
         data_version = cmd_version this,
         data_id = cmd_id this,
         data_name = cmd_name this,
         data_type = ApplicationCommandTypes env (cmd_type this),
         data_options = Some option_list,
         data_target_id = None \<rparr> \<rparr>"

text \<open>
  Lines 456-577. The guard of line 458 is \<open>(!message) instanceof Message\<close>, always
  false; \<open>options\<close> is an array, so line 460 does not throw. In the subcommand branch
  \<open>subCommand.type\<close> (line 475) is read after \<open>options.shift()\<close>: with no option
  of that name it is a \<open>TypeError\<close>, and the array has been shifted.
\<close>

definition sendSlashCommand ::
  "env \<Rightarrow> ApplicationCommand \<Rightarrow> Message \<Rightarrow> jsval list \<Rightarrow> slash_outcome" where
  "sendSlashCommand env this message options =
     (if \<not> strict_eq (cmd_type this) (JStr ''CHAT_INPUT'')
      then \<lparr> out_result = Inr Returned_false, out_options = options, out_this = this \<rparr>
      else
        (case cmd_options this of
           None \<Rightarrow> \<lparr> out_result = Inl TypeError_undefined, out_options = options, out_this = this \<rparr>
         | Some this_options \<Rightarrow>
             (let subCommandCheck =
                    list_ex (\<lambda>opt. opt_type opt \<in> {JStr ''SUB_COMMAND'', JStr ''SUB_COMMAND_GROUP''})
                      this_options
              in
              if subCommandCheck then
                (let subCommand =
                       find (\<lambda>opt. loose_eq (Number env) (JStr (opt_name opt))
                                     (case options of [] \<Rightarrow> JUndefined | first # rest \<Rightarrow> first))
                         this_options;
                     shifted = tl options
                 in \<lparr> out_result =
                        (case subCommand of
                           None \<Rightarrow> Inl TypeError_undefined
                         | Some sc \<Rightarrow>
                             (case slash_loop env this_options True subCommand shifted 0 [] of
                                Inl e \<Rightarrow> Inl e
                              | Inr optionFormat \<Rightarrow>
                                  if (case opt_options sc of
                                        None \<Rightarrow> False
                                      | Some sub_options \<Rightarrow>
                                          length shifted < length sub_options
                                          \<and> opt_required (sub_options ! length shifted) = Some True)
                                  then Inl Error_value_required_missing
                                  else Inr (Posted (interaction_body env this message
                                         [OptionGroup
                                            (ApplicationCommandOptionTypes env (opt_type sc))
                                            (opt_name sc) optionFormat])))),
                      out_options = shifted,
                      out_this = this \<rparr>)
              else
                \<lparr> out_result =
                    (case slash_loop env this_options False None options 0 [] of
                       Inl e \<Rightarrow> Inl e
                     | Inr optionFormat \<Rightarrow>
                         if length options < length this_options
                            \<and> opt_required (this_options ! length options) = Some True
                         then Inl Error_value_required_missing
                         else Inr (Posted (interaction_body env this message optionFormat))),
                  out_options = options,
                  out_this = this \<rparr>)))"

section \<open>The enumeration tables of the Discord API\<close>

text \<open>
  Modelled from the spec: \<open>util/Constants.js\<close> (the tables
  \<open>ApplicationCommandTypes\<close>, \<open>ApplicationCommandOptionTypes\<close>,
  \<open>ChannelTypes\<close>) is missing from the sources. The spec says that a type tag is "an
  integer code on the wire and a symbolic name in the model"; the codes are those of the
  wire format, the Discord API that the source documents its types with (the
  \<open>@see\<close> links of lines 619-627): command kinds \<open>CHAT_INPUT = 1\<close>,
  \<open>USER = 2\<close>, \<open>MESSAGE = 3\<close>; option types \<open>SUB_COMMAND = 1\<close> to
  \<open>ATTACHMENT = 11\<close>; channel types \<open>GUILD_TEXT = 0\<close> to
  \<open>GUILD_STAGE_VOICE = 13\<close>, with no type 7, 8 or 9. A table built by
  \<open>createEnum\<close> holds \<open>obj[name] = index\<close> and \<open>obj[index] = name\<close> for every
  name of the list that is not \<open>null\<close>. A property key is a string: the number
  \<open>3\<close> and the string \<open>'3'\<close> read the same property.
\<close>

fun enum_index :: "string option list \<Rightarrow> string \<Rightarrow> nat \<Rightarrow> nat option" where
  "enum_index [] s i = None"
| "enum_index (k # ks) s i =
     (case enum_index ks s (Suc i) of
        Some j \<Rightarrow> Some j
      | None \<Rightarrow> if k = Some s then Some i else None)"

definition enum_name :: "string option list \<Rightarrow> nat \<Rightarrow> jsval" where
  "enum_name keys i =
     (if i < length keys then (case keys ! i of None \<Rightarrow> JUndefined | Some n \<Rightarrow> JStr n)
      else JUndefined)"

definition digit_of :: "char \<Rightarrow> nat option" where
  "digit_of c =
     (if (48::nat) \<le> of_char c \<and> of_char c \<le> (57::nat) then Some (of_char c - 48) else None)"

fun digits_value :: "string \<Rightarrow> nat \<Rightarrow> nat option" where
  "digits_value [] acc = Some acc"
| "digits_value (c # cs) acc =
     (case digit_of c of None \<Rightarrow> None | Some d \<Rightarrow> digits_value cs (10 * acc + d))"

text \<open>The index that a string key spells: a decimal numeral with no leading zero.\<close>

definition index_key :: "string \<Rightarrow> nat option" where
  "index_key s =
     (if s = [] \<or> (length s > 1 \<and> hd s = CHR ''0'') then None else digits_value s 0)"

definition createEnum :: "string option list \<Rightarrow> jsval \<Rightarrow> jsval" where
  "createEnum keys k =
     (case k of
        JStr s \<Rightarrow>
          (case enum_index keys s 0 of
             Some i \<Rightarrow> JNum (Fin (of_nat i))
           | None \<Rightarrow> (case index_key s of None \<Rightarrow> JUndefined | Some i \<Rightarrow> enum_name keys i))
      | JNum (Fin r) \<Rightarrow>
          (if 0 \<le> r \<and> r = of_int \<lfloor>r\<rfloor> then enum_name keys (nat \<lfloor>r\<rfloor>) else JUndefined)
      | other \<Rightarrow> JUndefined)"

definition ApplicationCommandTypes_names :: "string option list" where
  "ApplicationCommandTypes_names = [None, Some ''CHAT_INPUT'', Some ''USER'', Some ''MESSAGE'']"

definition ApplicationCommandOptionTypes_names :: "string option list" where
  "ApplicationCommandOptionTypes_names =
     [None, Some ''SUB_COMMAND'', Some ''SUB_COMMAND_GROUP'', Some ''STRING'', Some ''INTEGER'',
      Some ''BOOLEAN'', Some ''USER'', Some ''CHANNEL'', Some ''ROLE'', Some ''MENTIONABLE'',
      Some ''NUMBER'', Some ''ATTACHMENT'']"

definition ChannelTypes_names :: "string option list" where
  "ChannelTypes_names =
     [Some ''GUILD_TEXT'', Some ''DM'', Some ''GUILD_VOICE'', Some ''GROUP_DM'',
      Some ''GUILD_CATEGORY'', Some ''GUILD_NEWS'', Some ''GUILD_STORE'', None, None, None,
      Some ''GUILD_NEWS_THREAD'', Some ''GUILD_PUBLIC_THREAD'', Some ''GUILD_PRIVATE_THREAD'',
      Some ''GUILD_STAGE_VOICE'']"

text \<open>
  \<open>Number\<close> applied to a string (ECMAScript \<open>StringToNumber\<close>): white space is trimmed at
  both ends (of the 8-bit characters of \<^typ>\<open>string\<close>: tab, line feed, vertical tab, form
  feed, carriage return, space and no-break space); the empty string is \<open>0\<close>; \<open>0x\<close>,
  \<open>0o\<close> and \<open>0b\<close> introduce an unsigned hexadecimal, octal or binary integer; otherwise the
  string is an optionally signed \<open>Infinity\<close> or decimal literal with optional fraction and
  exponent; anything else is \<open>NaN\<close>. The exact value is rounded to the nearest double, ties to
  even (\<open>to_double p d\<close> rounds \<open>p / d\<close>), with overflow to infinity and gradual underflow.
  The two zeros are not distinguished: both are \<open>Fin 0\<close>, which no operator used by the
  command code can tell apart.
\<close>

definition is_white_space :: "char \<Rightarrow> bool" where
  "is_white_space c = ((of_char c :: int) \<in> {9, 10, 11, 12, 13, 32, 160})"

definition trim :: "string \<Rightarrow> string" where
  "trim s = rev (dropWhile is_white_space (rev (dropWhile is_white_space s)))"

definition radix_digit :: "char \<Rightarrow> int option" where
  "radix_digit c =
     (let n = (of_char c :: int)
      in if 48 \<le> n \<and> n \<le> 57 then Some (n - 48)
         else if 97 \<le> n \<and> n \<le> 102 then Some (n - 87)
         else if 65 \<le> n \<and> n \<le> 70 then Some (n - 55)
         else None)"

fun radix_value :: "int \<Rightarrow> string \<Rightarrow> int \<Rightarrow> int option" where
  "radix_value b [] acc = Some acc"
| "radix_value b (c # cs) acc =
     (case radix_digit c of
        None \<Rightarrow> None
      | Some d \<Rightarrow> if d < b then radix_value b cs (b * acc + d) else None)"

definition is_digit :: "char \<Rightarrow> bool" where
  "is_digit c = ((48::int) \<le> of_char c \<and> of_char c \<le> (57::int))"

definition pow2 :: "int \<Rightarrow> rat" where
  "pow2 e = (if 0 \<le> e then 2 ^ nat e else 1 / 2 ^ nat (- e))"

definition round_half_even :: "rat \<Rightarrow> int" where
  "round_half_even x =
     (let f = \<lfloor>x\<rfloor>; r = x - of_int f
      in if r < 1 / 2 then f else if 1 / 2 < r then f + 1 else if even f then f else f + 1)"

definition to_double :: "int \<Rightarrow> int \<Rightarrow> jsnum" where
  "to_double p d =
     (if p = 0 then Fin 0
      else
        (let q = of_int p / of_int d;
             e0 = bitlen p - bitlen d;
             e = max (if pow2 e0 \<le> q then e0 else e0 - 1) (- 1022);
             ulp = pow2 (e - 52);
             n = round_half_even (q / ulp)
         in if 1023 < e \<or> (e = 1023 \<and> 2 ^ 53 \<le> n) then PInfinity
            else Fin (of_int n * ulp)))"

definition negate :: "jsnum \<Rightarrow> jsnum" where
  "negate x =
     (case x of Fin r \<Rightarrow> Fin (- r) | PInfinity \<Rightarrow> NInfinity | NInfinity \<Rightarrow> PInfinity
      | NaN \<Rightarrow> NaN)"

definition scaled :: "int \<Rightarrow> int \<Rightarrow> jsnum" where
  "scaled m k = (if 0 \<le> k then to_double (m * 10 ^ nat k) 1 else to_double m (10 ^ nat (- k)))"

definition exponent_part :: "string \<Rightarrow> int option" where
  "exponent_part s =
     (case s of
        [] \<Rightarrow> Some 0
      | c # r \<Rightarrow>
          if c = CHR ''e'' \<or> c = CHR ''E'' then
            (case r of
               [] \<Rightarrow> None
             | sg # ds \<Rightarrow>
                 if sg = CHR ''+'' then (if ds = [] then None else radix_value 10 ds 0)
                 else if sg = CHR ''-'' then
                   (if ds = [] then None else map_option uminus (radix_value 10 ds 0))
                 else radix_value 10 r 0)
          else None)"

definition unsigned_decimal :: "string \<Rightarrow> jsnum" where
  "unsigned_decimal s =
     (let int_part = takeWhile is_digit s;
          r1 = dropWhile is_digit s;
          dot = (r1 \<noteq> [] \<and> hd r1 = CHR ''.'');
          frac_part = (if dot then takeWhile is_digit (tl r1) else []);
          r2 = (if dot then dropWhile is_digit (tl r1) else r1)
      in if int_part = [] \<and> frac_part = [] then NaN
         else (case (radix_value 10 (int_part @ frac_part) 0, exponent_part r2) of
                 (Some m, Some x) \<Rightarrow> scaled m (x - int (length frac_part))
               | other \<Rightarrow> NaN))"

definition signed_decimal :: "string \<Rightarrow> jsnum" where
  "signed_decimal s =
     (let negative = (s \<noteq> [] \<and> hd s = CHR ''-'');
          r = (if s \<noteq> [] \<and> (hd s = CHR ''+'' \<or> hd s = CHR ''-'') then tl s else s);
          v = (if r = ''Infinity'' then PInfinity else unsigned_decimal r)
      in if negative then negate v else v)"

definition non_decimal_radix :: "string \<Rightarrow> int option" where
  "non_decimal_radix s =
     (case s of
        c0 # c1 # r \<Rightarrow>
          if c0 = CHR ''0'' then
            (if c1 = CHR ''x'' \<or> c1 = CHR ''X'' then Some 16
             else if c1 = CHR ''o'' \<or> c1 = CHR ''O'' then Some 8
             else if c1 = CHR ''b'' \<or> c1 = CHR ''B'' then Some 2
             else None)
          else None
      | other \<Rightarrow> None)"

definition StringToNumber :: "string \<Rightarrow> jsnum" where
  "StringToNumber s =
     (let t = trim s
      in if t = [] then Fin 0
         else (case non_decimal_radix t of
                 Some b \<Rightarrow>
                   (if drop 2 t = [] then NaN
                    else (case radix_value b (drop 2 t) 0 of
                            None \<Rightarrow> NaN
                          | Some n \<Rightarrow> to_double n 1))
               | None \<Rightarrow> signed_decimal t))"

definition discord_env :: env where
  "discord_env =
     \<lparr> ApplicationCommandOptionTypes = createEnum ApplicationCommandOptionTypes_names,
       ApplicationCommandTypes = createEnum ApplicationCommandTypes_names,
       ChannelTypes = createEnum ChannelTypes_names,
       Number = StringToNumber \<rparr>"

section \<open>Example data\<close>

definition example_client :: Client where
  "example_client = \<lparr> session_id = Some ''session'' \<rparr>"

definition example_message :: Message where
  "example_message =
     \<lparr> msg_id = ''900'', msg_author = \<lparr> user_id = ''42'' \<rparr>,
       msg_guildId = Some ''7'', msg_channelId = ''8'' \<rparr>"

definition example_command ::
  "string \<Rightarrow> ApplicationCommandOption list \<Rightarrow> ApplicationCommand" where
  "example_command kind opts =
     \<lparr> cmd_client = example_client, cmd_id = Some ''100'', cmd_applicationId = Some ''200'',
       cmd_type = JStr kind, cmd_name = ''cmd'', cmd_description = Some ''a command'',
       cmd_version = Some ''300'', cmd_autocomplete = None, cmd_options = Some opts,
       cmd_defaultPermission = Some True, cmd_default_permission = None \<rparr>"

definition example_role :: ApplicationCommandOption where
  "example_role =
     ApplicationCommandOption (JStr ''STRING'') ''role'' ''the role'' (Some True) None None None
       None None None None None None"

definition example_add :: ApplicationCommandOption where
  "example_add =
     ApplicationCommandOption (JStr ''SUB_COMMAND'') ''add'' ''add a role'' None None None
       (Some [example_role]) None None None None None None"

definition example_remove :: ApplicationCommandOption where
  "example_remove =
     ApplicationCommandOption (JStr ''SUB_COMMAND'') ''remove'' ''remove a role'' None None None
       (Some [example_role]) None None None None None None"

definition example_role_command :: ApplicationCommand where
  "example_role_command = example_command ''CHAT_INPUT'' [example_add, example_remove]"



text \<open>
  A command built from data without \<open>default_permission\<close>: \<open>_patch\<close> assigns
  \<open>defaultPermission\<close> only when the key is in the data (lines 95-101), so the property
  stays undefined.
\<close>

definition example_unflagged_command :: ApplicationCommand where
  "example_unflagged_command = example_role_command\<lparr>cmd_defaultPermission := None\<rparr>"

definition example_a :: ApplicationCommandOption where
  "example_a =
     ApplicationCommandOption (JStr ''STRING'') ''a'' ''an option'' (Some True) None None None
       None None None None None None"

definition example_a_command :: ApplicationCommand where
  "example_a_command = example_command ''CHAT_INPUT'' [example_a]"

definition example_five :: ApplicationCommandOption where
  "example_five =
     ApplicationCommandOption (JStr ''INTEGER'') ''n'' ''a number'' (Some True) None
       (Some [\<lparr> choice_name = ''five'', choice_value = JStr ''5'' \<rparr>]) None
       None None None None None None"

definition example_five_command :: ApplicationCommand where
  "example_five_command = example_command ''CHAT_INPUT'' [example_five]"

definition example_pick :: ApplicationCommandOption where
  "example_pick =
     ApplicationCommandOption (JStr ''SUB_COMMAND'') ''pick'' ''pick a number'' None None None
       (Some [example_five]) None None None None None None"

definition example_pick_command :: ApplicationCommand where
  "example_pick_command = example_command ''CHAT_INPUT'' [example_pick]"

definition example_off :: ApplicationCommandOption where
  "example_off =
     ApplicationCommandOption (JStr ''INTEGER'') ''n'' ''a number'' (Some True) None
       (Some [\<lparr> choice_name = ''off'', choice_value = JNum (Fin 0) \<rparr>]) None
       None None None None None None"

definition example_off_command :: ApplicationCommand where
  "example_off_command = example_command ''CHAT_INPUT'' [example_off]"

definition example_wire_channel :: ApplicationCommandOption where
  "example_wire_channel =
     ApplicationCommandOption (JNum (Fin 7)) ''where'' ''a channel'' None None None None
       None (Some [JNum (Fin 0), JNum (Fin 2)]) None None None None"

definition example_wire_count :: ApplicationCommandOption where
  "example_wire_count =
     ApplicationCommandOption (JNum (Fin 4)) ''count'' ''how many'' (Some True) None
       (Some [\<lparr> choice_name = ''one'', choice_value = JNum (Fin 1) \<rparr>]) None
       None None None (Some (Fin 1)) None (Some (Fin 10))"

definition example_wire :: ApplicationCommandOption where
  "example_wire =
     ApplicationCommandOption (JNum (Fin 1)) ''add'' ''adds'' None None None
       (Some [example_wire_channel, example_wire_count]) None None None None None None"

section \<open>Notions used to state the claims\<close>

text \<open>The string of a token, and the name of an emitted entry.\<close>

fun token_string :: "jsval \<Rightarrow> string" where
  "token_string (JStr v) = v"
| "token_string x = []"

fun entry_name :: "InteractionOption \<Rightarrow> string" where
  "entry_name (OptionValue t n v) = n"
| "entry_name (OptionGroup t n entries) = n"

text \<open>
  A well-formed wire option (\<open>APIApplicationCommandOption\<close>): the type is an integer
  code that the table maps to a name and the name back to the code, the channel types are
  such codes of the channel table, only the wire spellings \<open>channel_types\<close>,
  \<open>min_value\<close>, \<open>max_value\<close> are used, and the nested options are well-formed.
\<close>

fun wf_wire :: "env \<Rightarrow> ApplicationCommandOption \<Rightarrow> bool" where
  "wf_wire env
     (ApplicationCommandOption type name description required autocomplete choices options
        channelTypes channel_types minValue min_value maxValue max_value) =
     (is_number type
      \<and> is_string (ApplicationCommandOptionTypes env type)
      \<and> ApplicationCommandOptionTypes env (ApplicationCommandOptionTypes env type) = type
      \<and> channelTypes = None \<and> minValue = None \<and> maxValue = None
      \<and> (case channel_types of
            None \<Rightarrow> True
          | Some ts \<Rightarrow>
              list_all (\<lambda>t. is_number t \<and> is_string (ChannelTypes env t)
                            \<and> ChannelTypes env (ChannelTypes env t) = t) ts)
      \<and> (case options of None \<Rightarrow> True | Some subs \<Rightarrow> list_all (wf_wire env) subs))"

text \<open>
  The spec's normal form of a wire option, "after normalizing default-filled fields": an
  absent \<open>required\<close> is \<open>false\<close>, except for a subcommand or a subcommand group,
  where it stays absent; the same in the nested options. (An absent optional property and
  one that is undefined are the same \<open>None\<close> here.)
\<close>

fun normalized :: "env \<Rightarrow> ApplicationCommandOption \<Rightarrow> ApplicationCommandOption" where
  "normalized env
     (ApplicationCommandOption type name description required autocomplete choices options
        channelTypes channel_types minValue min_value maxValue max_value) =
     ApplicationCommandOption type name description
       (case required of
          Some r \<Rightarrow> Some r
        | None \<Rightarrow>
            if ApplicationCommandOptionTypes env type = JStr ''SUB_COMMAND''
               \<or> ApplicationCommandOptionTypes env type = JStr ''SUB_COMMAND_GROUP''
            then None else Some False)
       autocomplete choices
       (map_option (map (normalized env)) options)
       channelTypes channel_types minValue min_value maxValue max_value"

text \<open>
  A well-formed option of the model (\<open>ApplicationCommandOption\<close>, what the constructor
  stores): the type is a name; \<open>required\<close> is absent for a subcommand or a subcommand
  group only; only the model spellings are used; no number is \<open>NaN\<close>; the channel types
  are names; choice names are unique and so are the names of the nested options, which
  are well-formed.
\<close>

fun wf_option :: "ApplicationCommandOption \<Rightarrow> bool" where
  "wf_option
     (ApplicationCommandOption type name description required autocomplete choices options
        channelTypes channel_types minValue min_value maxValue max_value) =
     (is_string type
      \<and> (required \<noteq> None \<or> type = JStr ''SUB_COMMAND'' \<or> type = JStr ''SUB_COMMAND_GROUP'')
      \<and> (case choices of
            None \<Rightarrow> True
          | Some cs \<Rightarrow>
              distinct (map choice_name cs) \<and> list_all (\<lambda>c. choice_value c \<noteq> JNum NaN) cs)
      \<and> (case options of
            None \<Rightarrow> True
          | Some subs \<Rightarrow> distinct (map opt_name subs) \<and> list_all wf_option subs)
      \<and> (case channelTypes of None \<Rightarrow> True | Some ts \<Rightarrow> list_all is_string ts)
      \<and> channel_types = None \<and> min_value = None \<and> max_value = None
      \<and> minValue \<noteq> Some NaN \<and> maxValue \<noteq> Some NaN)"

text \<open>
  What the server's data must have for the option decoded from it to be well-formed: unique
  choice names, unique names of the nested options, and no \<open>NaN\<close>.
\<close>

fun unique_names :: "ApplicationCommandOption \<Rightarrow> bool" where
  "unique_names
     (ApplicationCommandOption type name description required autocomplete choices options
        channelTypes channel_types minValue min_value maxValue max_value) =
     ((case choices of
         None \<Rightarrow> True
       | Some cs \<Rightarrow>
           distinct (map choice_name cs) \<and> list_all (\<lambda>c. choice_value c \<noteq> JNum NaN) cs)
      \<and> (case options of
            None \<Rightarrow> True
          | Some subs \<Rightarrow> distinct (map opt_name subs) \<and> list_all unique_names subs)
      \<and> min_value \<noteq> Some NaN \<and> max_value \<noteq> Some NaN)"

text \<open>
  A well-formed command (the \<open>Command\<close> of the data model): the kind is a name, the
  top-level options are well-formed and their names unique. The default-enabled flag may be
  absent, as it is on a command built from data without \<open>default_permission\<close>
  (lines 95-101).
\<close>

definition wf_command :: "ApplicationCommand \<Rightarrow> bool" where
  "wf_command c =
     (is_string (cmd_type c)
      \<and> (case cmd_options c of
            None \<Rightarrow> True
          | Some opts \<Rightarrow> distinct (map opt_name opts) \<and> list_all wf_option opts))"

text \<open>The test of line 467: some top-level option is a subcommand or a subcommand group.\<close>

definition has_subcommand :: "ApplicationCommandOption list \<Rightarrow> bool" where
  "has_subcommand this_options =
     list_ex (\<lambda>opt. opt_type opt \<in> {JStr ''SUB_COMMAND'', JStr ''SUB_COMMAND_GROUP''}) this_options"

section \<open>Facts about the tables\<close>

lemma ApplicationCommandTypes_discord:
  "ApplicationCommandTypes discord_env (JStr ''CHAT_INPUT'') = JNum (Fin 1)"
  "ApplicationCommandTypes discord_env (JStr ''USER'') = JNum (Fin 2)"
  "ApplicationCommandTypes discord_env (JStr ''MESSAGE'') = JNum (Fin 3)"
  by (simp_all add: discord_env_def createEnum_def ApplicationCommandTypes_names_def)

text \<open>
  The target that sendContextMenu sends: the author's id exactly when the code of the
  command's kind is \<open>== 1\<close>.
\<close>

lemma sendContextMenu_target:
  "\<not> loose_eq (Number env) (cmd_type this) (JStr ''CHAT_INPUT'') \<Longrightarrow>
   \<exists>body. sendContextMenu env this message sendFromMessage = Posted body
     \<and> data_target_id (body_data body) =
         Some (if loose_eq (Number env) (ApplicationCommandTypes env (cmd_type this)) (JNum (Fin 1))
               then user_id (msg_author message) else msg_id message)"
  by (simp add: sendContextMenu_def)

section \<open>Facts about the loop of sendSlashCommand\<close>

declare slash_loop.simps [simp del]

lemma slash_loop_done:
  "\<not> i < length options \<Longrightarrow>
   slash_loop env this_options subCommandCheck subCommand options i optionFormat = Inr optionFormat"
  by (subst slash_loop.simps) simp

lemma slash_loop_empty_token:
  "i < length options \<Longrightarrow> options ! i = JStr [] \<Longrightarrow>
   slash_loop env this_options True subCommand options i optionFormat
     = slash_loop env this_options True subCommand options (Suc i) optionFormat"
  by (subst slash_loop.simps) (simp split: option.splits)

lemma slash_loop_sub_step:
  "i < length options \<Longrightarrow> options ! i = JStr v \<Longrightarrow> opt_options sc = Some sub_options \<Longrightarrow>
   slash_loop env this_options True (Some sc) options i optionFormat
     = (if \<not> i < length sub_options \<or> v = []
        then slash_loop env this_options True (Some sc) options (Suc i) optionFormat
        else (case option_data env (sub_options ! i) v of
                Inl e \<Rightarrow> Inl e
              | Inr data \<Rightarrow>
                  slash_loop env this_options True (Some sc) options (Suc i) (optionFormat @ [data])))"
  by (subst slash_loop.simps) simp


lemma slash_loop_top_step:
  "i < length options \<Longrightarrow> options ! i = JStr v \<Longrightarrow>
   slash_loop env this_options False subCommand options i optionFormat
     = (if \<not> i < length this_options
        then slash_loop env this_options False subCommand options (Suc i) optionFormat
        else (case option_data env (this_options ! i) v of
                Inl e \<Rightarrow> Inl e
              | Inr data \<Rightarrow>
                  slash_loop env this_options False subCommand options (Suc i) (optionFormat @ [data])))"
  by (subst slash_loop.simps) simp

lemma slash_loop_not_string:
  "i < length options \<Longrightarrow> \<not> is_string (options ! i) \<Longrightarrow>
   slash_loop env this_options subCommandCheck subCommand options i optionFormat
     = Inl (TypeError_not_a_string (options ! i))"
  by (subst slash_loop.simps) (cases "options ! i"; simp)

lemma slash_loop_sub_entries:
  "slash_loop env this_options True (Some sc) options i optionFormat = Inr out \<Longrightarrow>
   opt_options sc = Some sub_options \<Longrightarrow>
   map Inr out = map Inr optionFormat @
     map (\<lambda>k. option_data env (sub_options ! k) (token_string (options ! k)))
       (filter (\<lambda>k. k < length sub_options \<and> options ! k \<noteq> JStr []) [i..<length options])"
proof (induction "length options - i" arbitrary: i optionFormat)
  case 0
  then show ?case by (simp add: slash_loop_done)
next
  case (Suc n)
  then have i: "i < length options" by simp
  show ?case
  proof (cases "options ! i")
    case (JStr v)
    note step = slash_loop_sub_step [OF i JStr Suc.prems(2), of env this_options optionFormat]
    have upt: "[i..<length options] = i # [Suc i..<length options]"
      using i by (simp add: upt_conv_Cons)
    show ?thesis
    proof (cases "\<not> i < length sub_options \<or> v = []")
      case True
      then have "slash_loop env this_options True (Some sc) options (Suc i) optionFormat = Inr out"
        using Suc.prems(1) step by simp
      from Suc.hyps(1) [OF _ this Suc.prems(2)] Suc.hyps(2) True JStr show ?thesis
        by (auto simp: upt)
    next
      case False
      then obtain data where d: "option_data env (sub_options ! i) v = Inr data"
        and r: "slash_loop env this_options True (Some sc) options (Suc i) (optionFormat @ [data]) = Inr out"
        using Suc.prems(1) step by (auto split: sum.splits)
      from Suc.hyps(1) [OF _ r Suc.prems(2)] Suc.hyps(2) False JStr d show ?thesis
        by (auto simp: upt)
    qed
  qed (use Suc.prems(1) i in \<open>simp_all add: slash_loop_not_string\<close>)
qed

lemma slash_loop_sub_succeeds:
  assumes "opt_options sc = Some sub_options"
    and "\<forall>k. i \<le> k \<and> k < length options \<longrightarrow> is_string (options ! k)"
    and "\<forall>k. i \<le> k \<and> k < length options \<and> k < length sub_options \<and> options ! k \<noteq> JStr []
           \<longrightarrow> (\<exists>d. option_data env (sub_options ! k) (token_string (options ! k)) = Inr d)"
  shows "\<exists>out. slash_loop env this_options True (Some sc) options i optionFormat = Inr out"
  using assms(2,3)
proof (induction "length options - i" arbitrary: i optionFormat)
  case 0
  then show ?case by (simp add: slash_loop_done)
next
  case (Suc n)
  then have i: "i < length options" by simp
  with Suc.prems(1) obtain v where v: "options ! i = JStr v"
    by (cases "options ! i") auto
  note step = slash_loop_sub_step [OF i v assms(1), of env this_options optionFormat]
  have rest: "\<exists>out. slash_loop env this_options True (Some sc) options (Suc i) acc = Inr out" for acc
    using Suc.hyps(1) [of "Suc i" acc] Suc.hyps(2) Suc.prems by auto
  show ?case
  proof (cases "\<not> i < length sub_options \<or> v = []")
    case True
    then show ?thesis using step rest by simp
  next
    case False
    with Suc.prems(2) i v obtain d where "option_data env (sub_options ! i) v = Inr d"
      by (metis le_refl token_string.simps(1) jsval.inject(3))
    then show ?thesis using step rest False by simp
  qed
qed

lemma slash_loop_top_succeeds:
  assumes "\<forall>k. i \<le> k \<and> k < length options \<longrightarrow> is_string (options ! k)"
    and "\<forall>k. i \<le> k \<and> k < length options \<and> k < length this_options
           \<longrightarrow> (\<exists>d. option_data env (this_options ! k) (token_string (options ! k)) = Inr d)"
  shows "\<exists>out. slash_loop env this_options False subCommand options i optionFormat = Inr out"
  using assms
proof (induction "length options - i" arbitrary: i optionFormat)
  case 0
  then show ?case by (simp add: slash_loop_done)
next
  case (Suc n)
  then have i: "i < length options" by simp
  with Suc.prems(1) obtain v where v: "options ! i = JStr v"
    by (cases "options ! i") auto
  note step = slash_loop_top_step [OF i v, of env this_options subCommand optionFormat]
  have rest: "\<exists>out. slash_loop env this_options False subCommand options (Suc i) acc = Inr out" for acc
    using Suc.hyps(1) [of "Suc i" acc] Suc.hyps(2) Suc.prems by auto
  show ?case
  proof (cases "\<not> i < length this_options")
    case True
    then show ?thesis using step rest by simp
  next
    case False
    with Suc.prems(2) i v obtain d where "option_data env (this_options ! i) v = Inr d"
      by (metis le_refl token_string.simps(1))
    then show ?thesis using step rest False by simp
  qed
qed


lemma find_Some_name: "find (\<lambda>opt. opt_name opt = t) xs = Some sc \<Longrightarrow> opt_name sc = t"
  by (auto simp: find_Some_iff)

lemma sendSlashCommand_sub:
  assumes "cmd_type this = JStr ''CHAT_INPUT''"
    and "cmd_options this = Some this_options"
    and "has_subcommand this_options"
  shows "out_result (sendSlashCommand env this message (JStr t # rest)) =
     (case find (\<lambda>opt. opt_name opt = t) this_options of
        None \<Rightarrow> Inl TypeError_undefined
      | Some sc \<Rightarrow>
          (case slash_loop env this_options True (Some sc) rest 0 [] of
             Inl e \<Rightarrow> Inl e
           | Inr optionFormat \<Rightarrow>
               if (case opt_options sc of
                     None \<Rightarrow> False
                   | Some sub_options \<Rightarrow>
                       length rest < length sub_options
                       \<and> opt_required (sub_options ! length rest) = Some True)
               then Inl Error_value_required_missing
               else Inr (Posted (interaction_body env this message
                      [OptionGroup (ApplicationCommandOptionTypes env (opt_type sc))
                         (opt_name sc) optionFormat]))))"
  using assms by (simp add: sendSlashCommand_def has_subcommand_def Let_def split: option.splits)

lemma sendSlashCommand_top:
  assumes "cmd_type this = JStr ''CHAT_INPUT''"
    and "cmd_options this = Some this_options"
    and "\<not> has_subcommand this_options"
  shows "out_result (sendSlashCommand env this message options) =
     (case slash_loop env this_options False None options 0 [] of
        Inl e \<Rightarrow> Inl e
      | Inr optionFormat \<Rightarrow>
          if length options < length this_options
             \<and> opt_required (this_options ! length options) = Some True
          then Inl Error_value_required_missing
          else Inr (Posted (interaction_body env this message optionFormat)))"
  using assms by (simp add: sendSlashCommand_def has_subcommand_def Let_def split: option.splits)

lemma sendSlashCommand_sub_posted:
  assumes "cmd_type this = JStr ''CHAT_INPUT''"
    and "cmd_options this = Some this_options"
    and "has_subcommand this_options"
    and "find (\<lambda>opt. opt_name opt = t) this_options = Some sc"
    and "out_result (sendSlashCommand env this message (JStr t # rest)) = Inr r"
  shows "\<exists>entries. slash_loop env this_options True (Some sc) rest 0 [] = Inr entries
           \<and> r = Posted (interaction_body env this message
                   [OptionGroup (ApplicationCommandOptionTypes env (opt_type sc)) (opt_name sc) entries])"
proof (cases "slash_loop env this_options True (Some sc) rest 0 []")
  case (Inl e)
  then show ?thesis
    using assms(4,5) by (simp add: sendSlashCommand_sub [OF assms(1-3)])
next
  case (Inr entries)
  then show ?thesis
    using assms(4,5) by (simp add: sendSlashCommand_sub [OF assms(1-3)] split: if_splits)
qed

section \<open>Facts used by the claims on sendSlashCommand\<close>


lemma example_add_code:
  "ApplicationCommandOptionTypes discord_env (opt_type example_add) = JNum (Fin 1)"
  by code_simp


lemma option_data_name: "option_data env opt v = Inr d \<Longrightarrow> entry_name d = opt_name opt"
  by (auto simp: option_data_def Let_def split: if_splits)

lemma entries_names:
  assumes "map Inr entries = map (\<lambda>k. option_data env (sub_options ! k) (tok k)) ks"
  shows "map entry_name entries = map (\<lambda>k. opt_name (sub_options ! k)) ks"
proof (rule nth_equalityI)
  from assms have "length (map Inr entries :: (error + InteractionOption) list)
      = length (map (\<lambda>k. option_data env (sub_options ! k) (tok k)) ks)"
    by simp
  then show len: "length (map entry_name entries) = length (map (\<lambda>k. opt_name (sub_options ! k)) ks)"
    by simp
  fix j
  assume "j < length (map entry_name entries)"
  then have j: "j < length entries" "j < length ks" using len by simp_all
  from assms have "(map Inr entries :: (error + InteractionOption) list) ! j
      = map (\<lambda>k. option_data env (sub_options ! k) (tok k)) ks ! j"
    by simp
  with j have "option_data env (sub_options ! (ks ! j)) (tok (ks ! j)) = Inr (entries ! j)"
    by simp
  then have "entry_name (entries ! j) = opt_name (sub_options ! (ks ! j))"
    by (rule option_data_name)
  with j show "map entry_name entries ! j = map (\<lambda>k. opt_name (sub_options ! k)) ks ! j"
    by simp
qed

lemma filter_none: "(\<forall>k. k \<in> set ks \<longrightarrow> \<not> P k) \<Longrightarrow> filter P ks = []"
  by (induction ks) auto

lemma example_a_command_fields:
  "cmd_type example_a_command = JStr ''CHAT_INPUT''"
  "cmd_options example_a_command = Some [example_a]"
  by (simp_all add: example_a_command_def example_command_def)

lemma example_role_command_fields:
  "cmd_type example_role_command = JStr ''CHAT_INPUT''"
  "cmd_options example_role_command = Some [example_add, example_remove]"
  by (simp_all add: example_role_command_def example_command_def)

lemma example_role_command_sub:
  "has_subcommand [example_add, example_remove]"
  "find (\<lambda>opt. opt_name opt = ''add'') [example_add, example_remove] = Some example_add"
  "opt_options example_add = Some [example_role]"
  by (simp_all add: has_subcommand_def example_add_def)

lemma option_data_choices:
  assumes "opt_choices opt = Some choices" and "choices \<noteq> []"
  shows "option_data env opt v =
     (case find_choice env choices v of
        None \<Rightarrow> Inl (Error_invalid_choice v choices)
      | Some c \<Rightarrow>
          Inr (OptionValue (ApplicationCommandOptionTypes env (opt_type opt)) (opt_name opt)
                 (if truthy (choice_value c) then choice_value c else coerce env opt v)))"
  using assms by (simp add: option_data_def Let_def split: option.splits)

text \<open>
  A choice whose value is falsy is not sent: \<open>choice?.value || ...\<close> (lines 511 and
  541) falls through to the coercion of the token. The token \<open>off\<close> selects the choice
  \<open>{name: 'off', value: 0}\<close> of an \<open>INTEGER\<close> option, and the value sent is
  \<open>Number('off')\<close>, which is \<open>NaN\<close>.
\<close>

lemma falsy_choice_value_example:
  "out_result (sendSlashCommand discord_env example_off_command example_message [JStr ''off''])
     = Inr (Posted (interaction_body discord_env example_off_command example_message
         [OptionValue (JNum (Fin 4)) ''n'' (JNum NaN)]))"
  by code_simp

section \<open>Facts about transformOption and the equality engine\<close>

lemma nullish_None_right [simp]: "nullish x None = x"
  by (cases x) simp_all

lemma roundtrip_channel_types:
  "list_all (\<lambda>t. is_number t \<and> is_string (ChannelTypes env t)
                  \<and> ChannelTypes env (ChannelTypes env t) = t) ts \<Longrightarrow>
   map ((\<lambda>t. if is_string t then ChannelTypes env t else t) \<circ> ChannelTypes env) ts = ts"
  by (induction ts) simp_all

lemma transformOption_roundtrip:
  "wf_wire env w \<Longrightarrow>
   transformOption env (transformOption env w True) False = normalized env w"
proof (induction w)
  case (ApplicationCommandOption type name description required autocomplete choices options
      channelTypes channel_types minValue min_value maxValue max_value)
  have subs: "map_option (map (\<lambda>sub. transformOption env (transformOption env sub True) False)) options
      = map_option (map (normalized env)) options"
  proof (cases options)
    case None
    then show ?thesis by simp
  next
    case (Some subs)
    with ApplicationCommandOption.prems have "list_all (wf_wire env) subs" by simp
    with ApplicationCommandOption.IH Some
    have "map (\<lambda>sub. transformOption env (transformOption env sub True) False) subs
        = map (normalized env) subs"
      by (auto simp: list_all_iff)
    with Some show ?thesis by simp
  qed
  have types: "nullish (map_option (map (\<lambda>t. if is_string t then ChannelTypes env t else t))
                 (map_option (map (ChannelTypes env)) channel_types)) None = channel_types"
    using ApplicationCommandOption.prems
    by (cases channel_types) (simp_all add: roundtrip_channel_types)
  obtain n where n: "type = JNum n"
    using ApplicationCommandOption.prems by (cases type) simp_all
  obtain s where s: "ApplicationCommandOptionTypes env type = JStr s"
    using ApplicationCommandOption.prems
    by (cases "ApplicationCommandOptionTypes env type") simp_all
  show ?case
    using ApplicationCommandOption.prems subs types n s
    by (cases required) (simp_all add: Let_def option.map_comp comp_def)
qed

text \<open>
  The constructor stores \<open>transformOption(o, true)\<close> of each wire option (lines 88-90):
  for a well-formed wire option with unique names that is a well-formed option of the
  model.
\<close>

lemma transformOption_name: "opt_name (transformOption env w received) = opt_name w"
  by (cases w) (simp add: Let_def)

lemma transformOption_wf_option:
  "wf_wire env w \<Longrightarrow> unique_names w \<Longrightarrow> wf_option (transformOption env w True)"
proof (induction w)
  case (ApplicationCommandOption type name description required autocomplete choices options
      channelTypes channel_types minValue min_value maxValue max_value)
  have subs: "distinct (map opt_name (map (\<lambda>sub. transformOption env sub True) subs))
      \<and> list_all wf_option (map (\<lambda>sub. transformOption env sub True) subs)"
    if "options = Some subs" for subs
  proof -
    from that ApplicationCommandOption.prems have "list_all (wf_wire env) subs"
      and "list_all unique_names subs" and "distinct (map opt_name subs)"
      by simp_all
    with ApplicationCommandOption.IH [of subs] that show ?thesis
      by (simp add: list_all_iff comp_def transformOption_name)
  qed
  have types: "list_all is_string (map (ChannelTypes env) ts)" if "channel_types = Some ts" for ts
    using that ApplicationCommandOption.prems by (simp add: list_all_iff)
  obtain s where s: "ApplicationCommandOptionTypes env type = JStr s"
    using ApplicationCommandOption.prems
    by (cases "ApplicationCommandOptionTypes env type") simp_all
  show ?case
    using ApplicationCommandOption.prems subs types s
    by (cases required; cases options; cases channel_types; cases type)
      (auto simp add: Let_def)
qed

declare optionEquals.simps [simp del] optionsEqual.simps [simp del]

lemma fold_update_map_of:
  "fold (\<lambda>(k, v) m. m(k \<mapsto> v)) entries m = m ++ map_of (rev entries)"
proof (induction entries arbitrary: m)
  case Nil
  then show ?case by simp
next
  case (Cons e entries)
  obtain k v where e: "e = (k, v)" by (cases e)
  have "fold (\<lambda>(k, v) m. m(k \<mapsto> v)) (e # entries) m
      = fold (\<lambda>(k, v) m. m(k \<mapsto> v)) entries (m(k \<mapsto> v))"
    by (simp add: e)
  also have "\<dots> = (m(k \<mapsto> v)) ++ map_of (rev entries)"
    by (rule Cons.IH)
  also have "m(k \<mapsto> v) = m ++ [k \<mapsto> v]"
    by simp
  also have "(m ++ [k \<mapsto> v]) ++ map_of (rev entries) = m ++ map_of (rev (e # entries))"
    using e by (simp only: map_add_assoc rev.simps map_of_append map_of.simps fst_conv snd_conv)
  finally show ?case .
qed

lemma js_Map_map_of: "js_Map entries = map_of (rev entries)"
  by (simp add: js_Map_def fold_update_map_of)

lemma js_Map_unique:
  assumes "distinct (map f xs)" and "x \<in> set xs"
  shows "js_Map (map (\<lambda>x. (f x, x)) xs) (f x) = Some x"
proof -
  have "distinct (map fst (rev (map (\<lambda>x. (f x, x)) xs)))"
    using assms(1) by (simp add: rev_map [symmetric] comp_def)
  moreover have "(f x, x) \<in> set (rev (map (\<lambda>x. (f x, x)) xs))"
    using assms(2) by auto
  ultimately show ?thesis
    by (simp only: js_Map_map_of map_of_is_SomeI)
qed

lemma strict_eq_refl: "x \<noteq> JNum NaN \<Longrightarrow> strict_eq x x"
  by (cases x) (simp_all add: num_eq_def)

lemma strict_eq_num_val: "x \<noteq> Some NaN \<Longrightarrow> strict_eq (num_val x) (num_val x)"
  by (cases x) (simp_all add: num_eq_def)

lemma map_not_number: "list_all is_string ts \<Longrightarrow> map (\<lambda>t. if is_number t then f t else t) ts = ts"
proof (induction ts)
  case Nil
  then show ?case by simp
next
  case (Cons t ts)
  then show ?case by (cases t) simp_all
qed

lemma list_all2_same: "list_all2 P xs xs = list_all (\<lambda>x. P x x) xs"
  by (induction xs) simp_all

lemma optionEquals_refl_step:
  assumes wf: "wf_option opt"
    and subs: "\<And>subs. opt_options opt = Some subs \<Longrightarrow> optionsEqual env subs subs strict"
  shows "optionEquals env opt opt strict"
proof (cases opt)
  case (ApplicationCommandOption type name description required autocomplete choices options
      channelTypes channel_types minValue min_value maxValue max_value)
  from wf obtain s where s: "type = JStr s"
    unfolding ApplicationCommandOption by (cases type) simp_all
  have req: "nullish required
      (if JStr s \<in> {JStr ''SUB_COMMAND'', JStr ''SUB_COMMAND_GROUP''} then None else Some False)
      = required"
    using wf s unfolding ApplicationCommandOption by (cases required) auto
  have str: "strict_eq (JStr s) (JStr s)"
    by simp
  have choices_strict: "list_all2 (\<lambda>choice c. choice_name choice = choice_name c
          \<and> strict_eq (choice_value choice) (choice_value c)) cs cs"
    and choices_lookup: "list_all (\<lambda>choice.
           case js_Map (map (\<lambda>choice. (choice_name choice, choice)) cs) (choice_name choice) of
             None \<Rightarrow> False
           | Some foundChoice \<Rightarrow> strict_eq (choice_value foundChoice) (choice_value choice)) cs"
    if "choices = Some cs" for cs
  proof -
    from wf that have d: "distinct (map choice_name cs)"
      and v: "list_all (\<lambda>c. choice_value c \<noteq> JNum NaN) cs"
      unfolding ApplicationCommandOption by simp_all
    from v show "list_all2 (\<lambda>choice c. choice_name choice = choice_name c
          \<and> strict_eq (choice_value choice) (choice_value c)) cs cs"
      by (simp add: list_all2_same list_all_iff strict_eq_refl)
    from v show "list_all (\<lambda>choice.
           case js_Map (map (\<lambda>choice. (choice_name choice, choice)) cs) (choice_name choice) of
             None \<Rightarrow> False
           | Some foundChoice \<Rightarrow> strict_eq (choice_value foundChoice) (choice_value choice)) cs"
      by (simp add: list_all_iff js_Map_unique [OF d] strict_eq_refl)
  qed
  have types: "list_all (\<lambda>t. t \<in> set (map (\<lambda>t. if is_number t then ChannelTypes env t else t) ts)) ts"
    if "channelTypes = Some ts" for ts
  proof -
    from wf that have "list_all is_string ts"
      unfolding ApplicationCommandOption by simp
    then show ?thesis by (simp add: map_not_number list_all_iff)
  qed
  have nested: "optionsEqual env sub_options sub_options strict" if "options = Some sub_options"
    for sub_options
    using subs that unfolding ApplicationCommandOption by simp
  have nums: "strict_eq (num_val minValue) (num_val minValue)"
    "strict_eq (num_val maxValue) (num_val maxValue)"
    using wf unfolding ApplicationCommandOption by (simp_all add: strict_eq_num_val)
  have snake: "channel_types = None" "min_value = None" "max_value = None"
    using wf unfolding ApplicationCommandOption by simp_all
  show ?thesis
    unfolding ApplicationCommandOption
    apply (subst optionEquals.simps)
    apply (simp only: ApplicationCommandOption.sel Let_def snake nullish_None_right s
        is_string.simps if_True)
    apply (cases choices; cases channelTypes; cases options)
    apply (simp_all only: option.case req str nums choices_strict choices_lookup types nested
        simp_thms if_True if_False if_cancel)
    done
qed

lemma optionsEqual_refl_step:
  assumes "\<And>opt. opt \<in> set opts \<Longrightarrow> optionEquals env opt opt strict"
    and "distinct (map opt_name opts)"
  shows "optionsEqual env opts opts strict"
proof (cases strict)
  case True
  with assms(1) show ?thesis
    by (subst optionsEqual.simps) (simp add: list_all2_same list_all_iff)
next
  case False
  with assms(1) show ?thesis
    by (subst optionsEqual.simps) (simp add: Let_def list_all_iff js_Map_unique [OF assms(2)])
qed

lemma optionEquals_refl: "wf_option opt \<Longrightarrow> optionEquals env opt opt strict"
proof (induction opt)
  case (ApplicationCommandOption type name description required autocomplete choices options
      channelTypes channel_types minValue min_value maxValue max_value)
  show ?case
  proof (rule optionEquals_refl_step [OF ApplicationCommandOption.prems])
    fix subs
    assume "opt_options (ApplicationCommandOption type name description required autocomplete
        choices options channelTypes channel_types minValue min_value maxValue max_value) = Some subs"
    then have o: "options = Some subs" by simp
    with ApplicationCommandOption.prems have d: "distinct (map opt_name subs)"
      and w: "list_all wf_option subs" by simp_all
    show "optionsEqual env subs subs strict"
    proof (rule optionsEqual_refl_step [OF _ d])
      fix opt
      assume "opt \<in> set subs"
      with ApplicationCommandOption.IH [of subs opt] o w show "optionEquals env opt opt strict"
        by (simp add: list_all_iff)
    qed
  qed
qed

lemma optionsEqual_refl:
  "list_all wf_option opts \<Longrightarrow> distinct (map opt_name opts) \<Longrightarrow> optionsEqual env opts opts strict"
  by (rule optionsEqual_refl_step) (simp_all add: list_all_iff optionEquals_refl)

lemma optionEquals_name:
  "optionEquals env existing opt strict \<Longrightarrow> opt_name opt = opt_name existing"
proof (rule ccontr)
  assume "opt_name opt \<noteq> opt_name existing"
  then have "\<not> optionEquals env existing opt strict"
    by (subst optionEquals.simps) (simp add: Let_def)
  moreover assume "optionEquals env existing opt strict"
  ultimately show False by simp
qed

lemma optionsEqual_permutation:
  assumes "mset opts' = mset opts" and "distinct (map opt_name opts)"
    and "list_all wf_option opts"
  shows "optionsEqual env opts opts' False"
proof -
  have len: "length opts = length opts'"
    using assms(1) by (metis size_mset)
  have "mset (map opt_name opts') = mset (map opt_name opts)"
    using assms(1) by simp
  then have d: "distinct (map opt_name opts')"
    using assms(2) by (metis mset_eq_imp_distinct_iff)
  have "case js_Map (map (\<lambda>opt. (opt_name opt, opt)) opts') (opt_name opt) of
          None \<Rightarrow> False
        | Some foundOption \<Rightarrow> optionEquals env opt foundOption False"
    if "opt \<in> set opts" for opt
  proof -
    from that assms(1) have "opt \<in> set opts'" by (metis mset_eq_setD)
    from js_Map_unique [OF d this] that assms(3) show ?thesis
      by (simp add: list_all_iff optionEquals_refl)
  qed
  then show ?thesis
    by (subst optionsEqual.simps) (simp add: len Let_def list_all_iff)
qed

lemma permutation_same_names:
  assumes "mset ys = mset xs" and "distinct (map f xs)" and "map f xs = map f ys"
  shows "ys = xs"
proof (rule nth_equalityI)
  show len: "length ys = length xs"
    using assms(1) by (metis size_mset)
  fix i
  assume i: "i < length ys"
  then have "ys ! i \<in> set xs"
    using assms(1) by (metis mset_eq_setD nth_mem)
  moreover have "xs ! i \<in> set xs"
    using i len by simp
  moreover have "f (ys ! i) = f (xs ! i)"
    using assms(3) i len by (metis nth_map)
  moreover have "inj_on f (set xs)"
    using assms(2) by (simp add: distinct_map)
  ultimately show "ys ! i = xs ! i"
    by (simp add: inj_on_def)
qed

lemma optionsEqual_strict_names:
  "optionsEqual env opts opts' True \<Longrightarrow> map opt_name opts = map opt_name opts'"
proof -
  assume a: "optionsEqual env opts opts' True"
  then have len: "length opts = length opts'"
    by (subst (asm) optionsEqual.simps) (simp split: if_splits)
  from a len have "list_all2 (\<lambda>opt candidate. optionEquals env opt candidate True) opts opts'"
    by (subst (asm) optionsEqual.simps) simp
  then have "list_all2 (\<lambda>opt candidate. opt_name opt = opt_name candidate) opts opts'"
    by (rule list_all2_mono) (simp add: optionEquals_name)
  then show ?thesis
    by (simp add: list_all2_conv_all_nth list_eq_iff_nth_eq)
qed

lemma optionsEqual_strict_permutation:
  assumes "mset opts' = mset opts" and "distinct (map opt_name opts)" and "opts' \<noteq> opts"
  shows "\<not> optionsEqual env opts opts' True"
proof
  assume "optionsEqual env opts opts' True"
  then have "map opt_name opts = map opt_name opts'"
    by (rule optionsEqual_strict_names)
  with assms(1,2) have "opts' = opts"
    by (rule permutation_same_names)
  with assms(3) show False by simp
qed

lemma equals_top_level:
  assumes "is_string (cmd_type this)"
    and "cmd_id command = cmd_id this" and "cmd_type command = cmd_type this"
    and "cmd_name command = cmd_name this" and "cmd_description command = cmd_description this"
    and "cmd_version command = cmd_version this"
    and "cmd_autocomplete command = cmd_autocomplete this"
    and "map_option length (cmd_options command) = map_option length (cmd_options this)"
    and "nullish (cmd_defaultPermission command)
           (nullish (cmd_default_permission command) (Some True)) = cmd_defaultPermission this"
  shows "equals env this command strict =
     (case cmd_options command of
        None \<Rightarrow> Inr True
      | Some command_options \<Rightarrow>
          (case cmd_options this of
             None \<Rightarrow> Inl TypeError_undefined
           | Some this_options \<Rightarrow> Inr (optionsEqual env this_options command_options strict)))"
proof -
  from assms(1) obtain s where s: "cmd_type this = JStr s"
    by (cases "cmd_type this") simp_all
  have len: "(case cmd_options command of None \<Rightarrow> 0 | Some os \<Rightarrow> length os)
      = (case cmd_options this of None \<Rightarrow> 0 | Some os \<Rightarrow> length os)"
    using assms(8) by (cases "cmd_options command"; cases "cmd_options this") simp_all
  show ?thesis
    unfolding equals_def
    by (simp only: assms(2-7,9) len s is_string.simps Let_def if_True strict_eq.simps
        simp_thms if_False)
qed

lemma transformOption_received:
  "wf_wire env w \<Longrightarrow>
   opt_type (transformOption env w True) = ApplicationCommandOptionTypes env (opt_type w)
   \<and> is_string (ApplicationCommandOptionTypes env (opt_type w))
   \<and> opt_channelTypes (transformOption env w True)
       = map_option (map (ChannelTypes env)) (opt_channel_types w)
   \<and> opt_channel_types (transformOption env w True) = None
   \<and> opt_minValue (transformOption env w True) = opt_min_value w
   \<and> opt_min_value (transformOption env w True) = None
   \<and> opt_maxValue (transformOption env w True) = opt_max_value w
   \<and> opt_max_value (transformOption env w True) = None"
  by (cases w) (simp add: Let_def)

lemma normalized_fields:
  "wf_wire env w \<Longrightarrow>
   opt_type (normalized env w) = opt_type w
   \<and> opt_channel_types (normalized env w) = opt_channel_types w
   \<and> opt_channelTypes (normalized env w) = None
   \<and> opt_min_value (normalized env w) = opt_min_value w
   \<and> opt_minValue (normalized env w) = None
   \<and> opt_max_value (normalized env w) = opt_max_value w
   \<and> opt_maxValue (normalized env w) = None"
  by (cases w) simp

section \<open>Claims\<close>

text \<open>
  C1 (context-menu target). The claim: a command whose kind addresses a user is sent with
  the referenced user's id as \<open>target_id\<close>, one whose kind addresses a message with
  the message's id. The code compares the kind's code with \<open>1\<close>, which is the code of
  \<open>CHAT_INPUT\<close>, the kind that has already returned \<open>false\<close>; the code of
  \<open>USER\<close> is \<open>2\<close>. So a \<open>USER\<close> command applied to the message \<open>900\<close>
  written by user \<open>42\<close> is posted with \<open>target_id = 900\<close>, the message's id.
\<close>

theorem C1_user_command_targets_the_message:
  "sendContextMenu discord_env (example_command ''USER'' []) example_message False
     = Posted \<lparr>
         body_type = 2, body_application_id = Some ''200'', body_guild_id = Some ''7'',
         body_channel_id = ''8'', body_session_id = Some ''session'',
         body_data = \<lparr>
           data_version = Some ''300'', data_id = Some ''100'', data_name = ''cmd'',
           data_type = JNum (Fin 2), data_options = None,
           data_target_id = Some ''900'' \<rparr> \<rparr>
   \<and> user_id (msg_author example_message) = ''42''"
  by (simp add: sendContextMenu_def example_command_def example_message_def example_client_def
      ApplicationCommandTypes_discord num_eq_def)

text \<open>
  C2 (choice resolution), as amended. Every step of the top-level path at a declared
  position, and every step of the subcommand path at a declared position whose token is
  not empty, pushes the entry computed from the option and the token, or throws its
  error. For an option with a non-empty choice list: a choice whose name is the token is
  taken first, otherwise the first choice whose value is \<open>==\<close> to the token (the same
  string, or a number the token converts to); its value, when truthy, is the value of the
  entry whatever the option's type; with no such choice the call throws the error that
  lists the choices.
\<close>

theorem C2_choice_resolution:
  "(i < length options \<and> options ! i = JStr v \<and> i < length this_options \<longrightarrow>
      slash_loop env this_options False subCommand options i optionFormat
        = (case option_data env (this_options ! i) v of
             Inl e \<Rightarrow> Inl e
           | Inr data \<Rightarrow>
               slash_loop env this_options False subCommand options (Suc i) (optionFormat @ [data])))
   \<and> (i < length options \<and> options ! i = JStr v \<and> v \<noteq> []
      \<and> opt_options sc = Some sub_options \<and> i < length sub_options \<longrightarrow>
      slash_loop env this_options True (Some sc) options i optionFormat
        = (case option_data env (sub_options ! i) v of
             Inl e \<Rightarrow> Inl e
           | Inr data \<Rightarrow>
               slash_loop env this_options True (Some sc) options (Suc i) (optionFormat @ [data])))
   \<and> (opt_choices opt = Some choices \<and> choices \<noteq> [] \<longrightarrow>
        (find (\<lambda>c. choice_name c = v) choices = Some c \<and> truthy (choice_value c) \<longrightarrow>
           option_data env opt v
             = Inr (OptionValue (ApplicationCommandOptionTypes env (opt_type opt)) (opt_name opt)
                      (choice_value c)))
      \<and> (find (\<lambda>c. choice_name c = v) choices = None
          \<and> find (\<lambda>c. loose_eq (Number env) (choice_value c) (JStr v)) choices = Some c
          \<and> truthy (choice_value c) \<longrightarrow>
           option_data env opt v
             = Inr (OptionValue (ApplicationCommandOptionTypes env (opt_type opt)) (opt_name opt)
                      (choice_value c)))
      \<and> (find (\<lambda>c. choice_name c = v) choices = None
          \<and> find (\<lambda>c. loose_eq (Number env) (choice_value c) (JStr v)) choices = None \<longrightarrow>
           option_data env opt v = Inl (Error_invalid_choice v choices)))
   \<and> loose_eq (Number env) (JStr s) (JStr v) = (s = v)
   \<and> loose_eq (Number env) (JNum n) (JStr v) = (n \<noteq> NaN \<and> n = Number env v)"
proof (intro conjI impI)
  assume "i < length options \<and> options ! i = JStr v \<and> i < length this_options"
  then show "slash_loop env this_options False subCommand options i optionFormat
        = (case option_data env (this_options ! i) v of
             Inl e \<Rightarrow> Inl e
           | Inr data \<Rightarrow>
               slash_loop env this_options False subCommand options (Suc i) (optionFormat @ [data]))"
    by (simp add: slash_loop_top_step)
next
  assume "i < length options \<and> options ! i = JStr v \<and> v \<noteq> []
      \<and> opt_options sc = Some sub_options \<and> i < length sub_options"
  then show "slash_loop env this_options True (Some sc) options i optionFormat
        = (case option_data env (sub_options ! i) v of
             Inl e \<Rightarrow> Inl e
           | Inr data \<Rightarrow>
               slash_loop env this_options True (Some sc) options (Suc i) (optionFormat @ [data]))"
    by (simp add: slash_loop_sub_step)
next
  assume c: "opt_choices opt = Some choices \<and> choices \<noteq> []"
  assume "find (\<lambda>c. choice_name c = v) choices = Some c \<and> truthy (choice_value c)"
  then show "option_data env opt v
             = Inr (OptionValue (ApplicationCommandOptionTypes env (opt_type opt)) (opt_name opt)
                      (choice_value c))"
    using c by (simp add: option_data_choices find_choice_def)
next
  assume c: "opt_choices opt = Some choices \<and> choices \<noteq> []"
  assume "find (\<lambda>c. choice_name c = v) choices = None
          \<and> find (\<lambda>c. loose_eq (Number env) (choice_value c) (JStr v)) choices = Some c
          \<and> truthy (choice_value c)"
  then show "option_data env opt v
             = Inr (OptionValue (ApplicationCommandOptionTypes env (opt_type opt)) (opt_name opt)
                      (choice_value c))"
    using c by (simp add: option_data_choices find_choice_def)
next
  assume c: "opt_choices opt = Some choices \<and> choices \<noteq> []"
  assume "find (\<lambda>c. choice_name c = v) choices = None
          \<and> find (\<lambda>c. loose_eq (Number env) (choice_value c) (JStr v)) choices = None"
  then show "option_data env opt v = Inl (Error_invalid_choice v choices)"
    using c by (simp add: option_data_choices find_choice_def)
next
  show "loose_eq (Number env) (JStr s) (JStr v) = (s = v)" by simp
next
  show "loose_eq (Number env) (JNum n) (JStr v) = (n \<noteq> NaN \<and> n = Number env v)"
    by (auto simp: num_eq_def)
qed

text \<open>
  C2 at the spec's example: the token \<open>5\<close> is no choice name, it is found by value, and the
  string \<open>'5'\<close> is sent for an \<open>INTEGER\<close> option; the token \<open>6\<close> throws.
\<close>

theorem C2_choice_resolution_witness:
  "(0 < length [JStr ''5''] \<and> [JStr ''5''] ! 0 = JStr ''5'' \<and> 0 < length [example_five])
   \<and> (opt_choices example_five = Some [\<lparr> choice_name = ''five'', choice_value = JStr ''5'' \<rparr>]
      \<and> [\<lparr> choice_name = ''five'', choice_value = JStr ''5'' \<rparr>] \<noteq> [])
   \<and> (find (\<lambda>c. choice_name c = ''5'') [\<lparr> choice_name = ''five'', choice_value = JStr ''5'' \<rparr>] = None
      \<and> find (\<lambda>c. loose_eq (Number discord_env) (choice_value c) (JStr ''5''))
           [\<lparr> choice_name = ''five'', choice_value = JStr ''5'' \<rparr>]
         = Some \<lparr> choice_name = ''five'', choice_value = JStr ''5'' \<rparr>
      \<and> truthy (choice_value \<lparr> choice_name = ''five'', choice_value = JStr ''5'' \<rparr>))
   \<and> option_data discord_env example_five ''5'' = Inr (OptionValue (JNum (Fin 4)) ''n'' (JStr ''5''))
   \<and> slash_loop discord_env [example_five] False None [JStr ''5''] 0 []
       = Inr [OptionValue (JNum (Fin 4)) ''n'' (JStr ''5'')]
   \<and> out_result (sendSlashCommand discord_env example_five_command example_message [JStr ''5''])
       = Inr (Posted (interaction_body discord_env example_five_command example_message
           [OptionValue (JNum (Fin 4)) ''n'' (JStr ''5'')]))
   \<and> (find (\<lambda>c. choice_name c = ''6'') [\<lparr> choice_name = ''five'', choice_value = JStr ''5'' \<rparr>] = None
      \<and> find (\<lambda>c. loose_eq (Number discord_env) (choice_value c) (JStr ''6''))
           [\<lparr> choice_name = ''five'', choice_value = JStr ''5'' \<rparr>] = None)
   \<and> option_data discord_env example_five ''6''
       = Inl (Error_invalid_choice ''6'' [\<lparr> choice_name = ''five'', choice_value = JStr ''5'' \<rparr>])"
proof -
  let ?five = "\<lparr> choice_name = ''five'', choice_value = JStr ''5'' \<rparr>"
  have tok: "0 < length [JStr ''5''] \<and> [JStr ''5''] ! 0 = JStr ''5'' \<and> 0 < length [example_five]"
    by simp
  have ch: "opt_choices example_five = Some [?five] \<and> [?five] \<noteq> []"
    by (simp add: example_five_def)
  have byvalue: "find (\<lambda>c. choice_name c = ''5'') [?five] = None
      \<and> find (\<lambda>c. loose_eq (Number discord_env) (choice_value c) (JStr ''5'')) [?five] = Some ?five
      \<and> truthy (choice_value ?five)"
    by simp
  have nomatch: "find (\<lambda>c. choice_name c = ''6'') [?five] = None
      \<and> find (\<lambda>c. loose_eq (Number discord_env) (choice_value c) (JStr ''6'')) [?five] = None"
    by simp
  have code: "ApplicationCommandOptionTypes discord_env (opt_type example_five) = JNum (Fin 4)"
    by code_simp
  have name: "opt_name example_five = ''n''"
    by (simp add: example_five_def)
  note res5 = C2_choice_resolution [where opt = example_five and choices = "[?five]"
      and env = discord_env and v = "''5''" and c = ?five,
      THEN conjunct2, THEN conjunct2, THEN conjunct1, THEN mp, OF ch]
  note res6 = C2_choice_resolution [where opt = example_five and choices = "[?five]"
      and env = discord_env and v = "''6''",
      THEN conjunct2, THEN conjunct2, THEN conjunct1, THEN mp, OF ch]
  have data: "option_data discord_env example_five ''5''
      = Inr (OptionValue (JNum (Fin 4)) ''n'' (JStr ''5''))"
    using res5 [THEN conjunct2, THEN conjunct1, THEN mp, OF byvalue]
    by (simp add: code name)
  have err: "option_data discord_env example_five ''6'' = Inl (Error_invalid_choice ''6'' [?five])"
    by (rule res6 [THEN conjunct2, THEN conjunct2, THEN mp, OF nomatch])
  have "slash_loop discord_env [example_five] False None [JStr ''5''] 0 []
      = (case option_data discord_env ([example_five] ! 0) ''5'' of
           Inl e \<Rightarrow> Inl e
         | Inr data \<Rightarrow> slash_loop discord_env [example_five] False None [JStr ''5''] (Suc 0)
             ([] @ [data]))"
    by (rule C2_choice_resolution [where i = 0 and options = "[JStr ''5'']" and v = "''5''"
          and this_options = "[example_five]" and env = discord_env and subCommand = None
          and optionFormat = "[]", THEN conjunct1, THEN mp, OF tok])
  then have loop: "slash_loop discord_env [example_five] False None [JStr ''5''] 0 []
       = Inr [OptionValue (JNum (Fin 4)) ''n'' (JStr ''5'')]"
    by (simp add: data slash_loop_done)
  have posted: "out_result (sendSlashCommand discord_env example_five_command example_message
        [JStr ''5''])
       = Inr (Posted (interaction_body discord_env example_five_command example_message
           [OptionValue (JNum (Fin 4)) ''n'' (JStr ''5'')]))"
  proof -
    have "cmd_type example_five_command = JStr ''CHAT_INPUT''"
      and "cmd_options example_five_command = Some [example_five]"
      and "\<not> has_subcommand [example_five]"
      by (simp_all add: example_five_command_def example_command_def has_subcommand_def
          example_five_def)
    from sendSlashCommand_top [OF this, of discord_env example_message "[JStr ''5'']"]
    show ?thesis by (simp add: loop)
  qed
  show ?thesis
    by (intro conjI) (use tok ch byvalue nomatch data err loop posted in simp_all)
qed

text \<open>
  C2 as stated (at every step whose option declares choices, a token matching no
  choice throws) fails in the subcommand path: the empty token matches no choice of
  \<open>[{name: 'five', value: '5'}]\<close>, and the call posts the subcommand with no nested
  entry (line 516 skips the token before the choices are looked at).
\<close>

theorem C2_choice_resolution_counterexample:
  "opt_choices example_five = Some [\<lparr> choice_name = ''five'', choice_value = JStr ''5'' \<rparr>]
   \<and> find_choice discord_env [\<lparr> choice_name = ''five'', choice_value = JStr ''5'' \<rparr>] [] = None
   \<and> out_result (sendSlashCommand discord_env example_pick_command example_message
         [JStr ''pick'', JStr []])
       = Inr (Posted (interaction_body discord_env example_pick_command example_message
           [OptionGroup (JNum (Fin 1)) ''pick'' []]))"
  by code_simp



text \<open>
  C4 (required enforcement). For a chat-input command: when the option at the position after
  the last token exists and is required (top-level position \<open>length options\<close>, or that
  position of the selected subcommand's options once the first token is removed), the call
  throws; and when every token was consumed without an error, what it throws is
  \<open>Value required missing\<close>. For the top-level options
  \<open>[{name: 'a', type: STRING, required: true}]\<close>, no token throws it, and the token
  \<open>x\<close> posts \<open>options: [{type: 3, name: 'a', value: 'x'}]\<close>.
\<close>

theorem C4_required_enforcement:
  assumes "cmd_type this = JStr ''CHAT_INPUT''"
    and "cmd_options this = Some this_options"
  shows "(\<not> has_subcommand this_options
          \<and> length options < length this_options
          \<and> opt_required (this_options ! length options) = Some True \<longrightarrow>
            (\<exists>e. out_result (sendSlashCommand env this message options) = Inl e)
            \<and> ((\<forall>k. k < length options \<longrightarrow>
                    is_string (options ! k)
                    \<and> (\<exists>d. option_data env (this_options ! k) (token_string (options ! k)) = Inr d))
               \<longrightarrow> out_result (sendSlashCommand env this message options)
                     = Inl Error_value_required_missing))
       \<and> (has_subcommand this_options
          \<and> find (\<lambda>opt. opt_name opt = t) this_options = Some sc
          \<and> opt_options sc = Some sub_options
          \<and> length rest < length sub_options
          \<and> opt_required (sub_options ! length rest) = Some True \<longrightarrow>
            (\<exists>e. out_result (sendSlashCommand env this message (JStr t # rest)) = Inl e)
            \<and> ((\<forall>k. k < length rest \<longrightarrow>
                    is_string (rest ! k)
                    \<and> (rest ! k \<noteq> JStr [] \<longrightarrow>
                         (\<exists>d. option_data env (sub_options ! k) (token_string (rest ! k)) = Inr d)))
               \<longrightarrow> out_result (sendSlashCommand env this message (JStr t # rest))
                     = Inl Error_value_required_missing))
       \<and> out_result (sendSlashCommand discord_env example_a_command example_message [])
           = Inl Error_value_required_missing
       \<and> out_result (sendSlashCommand discord_env example_a_command example_message [JStr ''x''])
           = Inr (Posted (interaction_body discord_env example_a_command example_message
               [OptionValue (JNum (Fin 3)) ''a'' (JStr ''x'')]))"
proof (intro conjI impI)
  assume top: "\<not> has_subcommand this_options
          \<and> length options < length this_options
          \<and> opt_required (this_options ! length options) = Some True"
  then have nosub: "\<not> has_subcommand this_options" by simp
  note res = sendSlashCommand_top [OF assms nosub, of env message options]
  show "\<exists>e. out_result (sendSlashCommand env this message options) = Inl e"
    using top by (cases "slash_loop env this_options False None options 0 []") (simp_all add: res)
  assume tokens: "\<forall>k. k < length options \<longrightarrow>
                    is_string (options ! k)
                    \<and> (\<exists>d. option_data env (this_options ! k) (token_string (options ! k)) = Inr d)"
  have "\<exists>out. slash_loop env this_options False None options 0 [] = Inr out"
    by (rule slash_loop_top_succeeds) (use tokens in simp_all)
  then obtain out where "slash_loop env this_options False None options 0 [] = Inr out" ..
  then show "out_result (sendSlashCommand env this message options) = Inl Error_value_required_missing"
    using top by (simp add: res)
next
  assume sub: "has_subcommand this_options
          \<and> find (\<lambda>opt. opt_name opt = t) this_options = Some sc
          \<and> opt_options sc = Some sub_options
          \<and> length rest < length sub_options
          \<and> opt_required (sub_options ! length rest) = Some True"
  then have has: "has_subcommand this_options" and subs: "opt_options sc = Some sub_options"
    by simp_all
  note res = sendSlashCommand_sub [OF assms has, of env message t rest]
  show "\<exists>e. out_result (sendSlashCommand env this message (JStr t # rest)) = Inl e"
    using sub by (cases "slash_loop env this_options True (Some sc) rest 0 []") (simp_all add: res)
  assume tokens: "\<forall>k. k < length rest \<longrightarrow>
                    is_string (rest ! k)
                    \<and> (rest ! k \<noteq> JStr [] \<longrightarrow>
                         (\<exists>d. option_data env (sub_options ! k) (token_string (rest ! k)) = Inr d))"
  have "\<exists>out. slash_loop env this_options True (Some sc) rest 0 [] = Inr out"
    by (rule slash_loop_sub_succeeds [OF subs]) (use tokens in simp_all)
  then obtain out where "slash_loop env this_options True (Some sc) rest 0 [] = Inr out" ..
  then show "out_result (sendSlashCommand env this message (JStr t # rest))
      = Inl Error_value_required_missing"
    using sub by (simp add: res)
next
  show "out_result (sendSlashCommand discord_env example_a_command example_message [])
           = Inl Error_value_required_missing"
    by code_simp
next
  show "out_result (sendSlashCommand discord_env example_a_command example_message [JStr ''x''])
           = Inr (Posted (interaction_body discord_env example_a_command example_message
               [OptionValue (JNum (Fin 3)) ''a'' (JStr ''x'')]))"
    by code_simp
qed

text \<open>
  C4 at the examples: no token for the required option \<open>a\<close>, and the subcommand
  token \<open>add\<close> alone, with no token for its required option \<open>role\<close>.
\<close>

theorem C4_required_enforcement_witness:
  "cmd_type example_a_command = JStr ''CHAT_INPUT''
   \<and> cmd_options example_a_command = Some [example_a]
   \<and> (\<not> has_subcommand [example_a]
      \<and> length ([] :: jsval list) < length [example_a]
      \<and> opt_required ([example_a] ! length ([] :: jsval list)) = Some True)
   \<and> out_result (sendSlashCommand discord_env example_a_command example_message [])
       = Inl Error_value_required_missing
   \<and> cmd_type example_role_command = JStr ''CHAT_INPUT''
   \<and> cmd_options example_role_command = Some [example_add, example_remove]
   \<and> (has_subcommand [example_add, example_remove]
      \<and> find (\<lambda>opt. opt_name opt = ''add'') [example_add, example_remove] = Some example_add
      \<and> opt_options example_add = Some [example_role]
      \<and> length ([] :: jsval list) < length [example_role]
      \<and> opt_required ([example_role] ! length ([] :: jsval list)) = Some True)
   \<and> out_result (sendSlashCommand discord_env example_role_command example_message [JStr ''add''])
       = Inl Error_value_required_missing"
proof -
  have top: "\<not> has_subcommand [example_a]
      \<and> length ([] :: jsval list) < length [example_a]
      \<and> opt_required ([example_a] ! length ([] :: jsval list)) = Some True"
    by (simp add: has_subcommand_def example_a_def)
  have sub: "has_subcommand [example_add, example_remove]
      \<and> find (\<lambda>opt. opt_name opt = ''add'') [example_add, example_remove] = Some example_add
      \<and> opt_options example_add = Some [example_role]
      \<and> length ([] :: jsval list) < length [example_role]
      \<and> opt_required ([example_role] ! length ([] :: jsval list)) = Some True"
    by (intro conjI) (rule example_role_command_sub | simp add: example_role_def)+
  note top_case = C4_required_enforcement [OF example_a_command_fields,
      where options = "[]" and env = discord_env and message = example_message,
      THEN conjunct1, THEN mp, OF top, THEN conjunct2, THEN mp]
  note sub_case = C4_required_enforcement [OF example_role_command_fields,
      where rest = "[]" and env = discord_env and message = example_message and t = "''add''"
        and sc = example_add and sub_options = "[example_role]",
      THEN conjunct2, THEN conjunct1, THEN mp, OF sub, THEN conjunct2, THEN mp]
  have a: "out_result (sendSlashCommand discord_env example_a_command example_message [])
       = Inl Error_value_required_missing"
    by (rule top_case) simp
  have b: "out_result (sendSlashCommand discord_env example_role_command example_message
       [JStr ''add'']) = Inl Error_value_required_missing"
    by (rule sub_case) simp
  show ?thesis
    by (intro conjI) (use example_a_command_fields example_role_command_fields top sub a b in simp_all)
qed

text \<open>
  C5 (transcoder round trip). For every well-formed wire option \<open>w\<close>, transforming it
  with \<open>received = true\<close> and the result with \<open>received = false\<close> gives \<open>w\<close> in
  normal form: every field as in \<open>w\<close>, with the default of \<open>required\<close> filled in, and
  the same in the nested options. On the way the model has the name of the type code, the
  names of the channel type codes under \<open>channelTypes\<close>, and the bounds under
  \<open>minValue\<close> and \<open>maxValue\<close>; the wire result has the codes again, under
  \<open>channel_types\<close>, \<open>min_value\<close> and \<open>max_value\<close>.
\<close>

theorem C5_transcoder_roundtrip:
  assumes "wf_wire env w"
  shows "transformOption env (transformOption env w True) False = normalized env w
       \<and> opt_type (transformOption env w True) = ApplicationCommandOptionTypes env (opt_type w)
       \<and> is_string (opt_type (transformOption env w True))
       \<and> opt_type (transformOption env (transformOption env w True) False) = opt_type w
       \<and> opt_channelTypes (transformOption env w True)
           = map_option (map (ChannelTypes env)) (opt_channel_types w)
       \<and> opt_channel_types (transformOption env w True) = None
       \<and> opt_channel_types (transformOption env (transformOption env w True) False)
           = opt_channel_types w
       \<and> opt_channelTypes (transformOption env (transformOption env w True) False) = None
       \<and> opt_minValue (transformOption env w True) = opt_min_value w
       \<and> opt_min_value (transformOption env w True) = None
       \<and> opt_min_value (transformOption env (transformOption env w True) False) = opt_min_value w
       \<and> opt_minValue (transformOption env (transformOption env w True) False) = None
       \<and> opt_maxValue (transformOption env w True) = opt_max_value w
       \<and> opt_max_value (transformOption env w True) = None
       \<and> opt_max_value (transformOption env (transformOption env w True) False) = opt_max_value w
       \<and> opt_maxValue (transformOption env (transformOption env w True) False) = None"
  using transformOption_roundtrip [OF assms] transformOption_received [OF assms]
    normalized_fields [OF assms]
  by simp

text \<open>
  C5 at a subcommand with a channel option (no \<open>required\<close> on the wire, two channel types) and
  an integer option with a choice and both bounds: the model, and the wire option again with
  \<open>required: false\<close> filled in.
\<close>

theorem C5_transcoder_roundtrip_witness:
  "wf_wire discord_env example_wire
   \<and> transformOption discord_env example_wire True
       = ApplicationCommandOption (JStr ''SUB_COMMAND'') ''add'' ''adds'' None None None
           (Some [ApplicationCommandOption (JStr ''CHANNEL'') ''where'' ''a channel'' (Some False)
                    None None None (Some [JStr ''GUILD_TEXT'', JStr ''GUILD_VOICE'']) None
                    None None None None,
                  ApplicationCommandOption (JStr ''INTEGER'') ''count'' ''how many'' (Some True)
                    None (Some [\<lparr> choice_name = ''one'', choice_value = JNum (Fin 1) \<rparr>]) None
                    None None (Some (Fin 1)) None (Some (Fin 10)) None])
           None None None None None None
   \<and> transformOption discord_env (transformOption discord_env example_wire True) False
       = ApplicationCommandOption (JNum (Fin 1)) ''add'' ''adds'' None None None
           (Some [ApplicationCommandOption (JNum (Fin 7)) ''where'' ''a channel'' (Some False)
                    None None None None (Some [JNum (Fin 0), JNum (Fin 2)]) None None None None,
                  example_wire_count])
           None None None None None None"
proof -
  have wf: "wf_wire discord_env example_wire"
    by code_simp
  have model: "transformOption discord_env example_wire True
       = ApplicationCommandOption (JStr ''SUB_COMMAND'') ''add'' ''adds'' None None None
           (Some [ApplicationCommandOption (JStr ''CHANNEL'') ''where'' ''a channel'' (Some False)
                    None None None (Some [JStr ''GUILD_TEXT'', JStr ''GUILD_VOICE'']) None
                    None None None None,
                  ApplicationCommandOption (JStr ''INTEGER'') ''count'' ''how many'' (Some True)
                    None (Some [\<lparr> choice_name = ''one'', choice_value = JNum (Fin 1) \<rparr>]) None
                    None None (Some (Fin 1)) None (Some (Fin 10)) None])
           None None None None None None"
    by code_simp
  have normal: "normalized discord_env example_wire
       = ApplicationCommandOption (JNum (Fin 1)) ''add'' ''adds'' None None None
           (Some [ApplicationCommandOption (JNum (Fin 7)) ''where'' ''a channel'' (Some False)
                    None None None None (Some [JNum (Fin 0), JNum (Fin 2)]) None None None None,
                  example_wire_count])
           None None None None None None"
    by code_simp
  from C5_transcoder_roundtrip [OF wf, THEN conjunct1] normal
  have "transformOption discord_env (transformOption discord_env example_wire True) False
       = ApplicationCommandOption (JNum (Fin 1)) ''add'' ''adds'' None None None
           (Some [ApplicationCommandOption (JNum (Fin 7)) ''where'' ''a channel'' (Some False)
                    None None None None (Some [JNum (Fin 0), JNum (Fin 2)]) None None None None,
                  example_wire_count])
           None None None None None None"
    by (rule trans)
  with wf model show ?thesis by (intro conjI)
qed

text \<open>
  C6 (order of the top-level options), as amended. Let \<open>c\<close> be a command whose top-level
  option names are unique and \<open>c'\<close> be \<open>c\<close> with its top-level options permuted. When
  \<open>c\<close> is well-formed and carries its default-enabled flag, \<open>c.equals(c', false)\<close> is
  true. \<open>c.equals(c', true)\<close> is false when the permutation moves an option. When the flag
  of \<open>c\<close> is absent, \<open>c.equals(c', false)\<close> is false (lines 262-263 compare
  \<open>this.defaultPermission\<close> as it is stored with the defaulted flag of the argument).
\<close>

theorem C6_option_order:
  assumes "cmd_options c = Some opts" and "distinct (map opt_name opts)"
    and "mset opts' = mset opts"
  shows "(wf_command c \<and> cmd_defaultPermission c \<noteq> None \<longrightarrow>
            equals env c (c\<lparr>cmd_options := Some opts'\<rparr>) False = Inr True)
       \<and> (opts' \<noteq> opts \<longrightarrow> equals env c (c\<lparr>cmd_options := Some opts'\<rparr>) True = Inr False)
       \<and> (cmd_defaultPermission c = None \<longrightarrow>
            equals env c (c\<lparr>cmd_options := Some opts'\<rparr>) False = Inr False)"
proof (intro conjI impI)
  assume a: "wf_command c \<and> cmd_defaultPermission c \<noteq> None"
  with assms(1) have w: "list_all wf_option opts"
    by (simp add: wf_command_def)
  have len: "length opts' = length opts"
    using assms(3) by (metis size_mset)
  have "equals env c (c\<lparr>cmd_options := Some opts'\<rparr>) False =
     (case cmd_options (c\<lparr>cmd_options := Some opts'\<rparr>) of
        None \<Rightarrow> Inr True
      | Some command_options \<Rightarrow>
          (case cmd_options c of
             None \<Rightarrow> Inl TypeError_undefined
           | Some this_options \<Rightarrow> Inr (optionsEqual env this_options command_options False)))"
    using a assms(1) len by (intro equals_top_level) (auto simp: wf_command_def)
  then have "equals env c (c\<lparr>cmd_options := Some opts'\<rparr>) False
      = Inr (optionsEqual env opts opts' False)"
    using assms(1) by simp
  then show "equals env c (c\<lparr>cmd_options := Some opts'\<rparr>) False = Inr True"
    using optionsEqual_permutation [OF assms(3) assms(2) w, of env] by simp
next
  assume "opts' \<noteq> opts"
  then have "\<not> optionsEqual env opts opts' True"
    using optionsEqual_strict_permutation [OF assms(3) assms(2), of env] by simp
  then show "equals env c (c\<lparr>cmd_options := Some opts'\<rparr>) True = Inr False"
    using assms(1) by (simp add: equals_def Let_def)
next
  assume "cmd_defaultPermission c = None"
  then show "equals env c (c\<lparr>cmd_options := Some opts'\<rparr>) False = Inr False"
    by (cases "cmd_default_permission c") (simp_all add: equals_def Let_def)
qed

text \<open>
  C6 at the subcommands \<open>add, remove\<close> against \<open>remove, add\<close>, with the flag and
  without it.
\<close>

theorem C6_option_order_witness:
  "cmd_options example_role_command = Some [example_add, example_remove]
   \<and> distinct (map opt_name [example_add, example_remove])
   \<and> mset [example_remove, example_add] = mset [example_add, example_remove]
   \<and> (wf_command example_role_command \<and> cmd_defaultPermission example_role_command \<noteq> None)
   \<and> equals discord_env example_role_command
        (example_role_command\<lparr>cmd_options := Some [example_remove, example_add]\<rparr>) False = Inr True
   \<and> [example_remove, example_add] \<noteq> [example_add, example_remove]
   \<and> equals discord_env example_role_command
        (example_role_command\<lparr>cmd_options := Some [example_remove, example_add]\<rparr>) True = Inr False
   \<and> cmd_options example_unflagged_command = Some [example_add, example_remove]
   \<and> cmd_defaultPermission example_unflagged_command = None
   \<and> equals discord_env example_unflagged_command
        (example_unflagged_command\<lparr>cmd_options := Some [example_remove, example_add]\<rparr>) False
       = Inr False"
proof -
  have wf: "wf_command example_role_command \<and> cmd_defaultPermission example_role_command \<noteq> None"
    by (simp add: wf_command_def example_role_command_def example_command_def example_add_def
        example_remove_def example_role_def)
  have opts: "cmd_options example_role_command = Some [example_add, example_remove]"
    by (simp add: example_role_command_def example_command_def)
  have names: "distinct (map opt_name [example_add, example_remove])"
    by (simp add: example_add_def example_remove_def)
  have perm: "mset [example_remove, example_add] = mset [example_add, example_remove]"
    by (simp add: add.commute)
  have ne: "[example_remove, example_add] \<noteq> [example_add, example_remove]"
    by (simp add: example_add_def example_remove_def)
  have opts': "cmd_options example_unflagged_command = Some [example_add, example_remove]"
    by (simp add: example_unflagged_command_def example_role_command_def example_command_def)
  have absent: "cmd_defaultPermission example_unflagged_command = None"
    by (simp add: example_unflagged_command_def)
  note flagged = C6_option_order [OF opts names perm, where env = discord_env]
  note unflagged = C6_option_order [OF opts' names perm, where env = discord_env]
  note same = flagged [THEN conjunct1, THEN mp, OF wf]
  note moved = flagged [THEN conjunct2, THEN conjunct1, THEN mp, OF ne]
  note differs = unflagged [THEN conjunct2, THEN conjunct2, THEN mp, OF absent]
  show ?thesis
    by (intro conjI) (rule opts names perm wf [THEN conjunct1] wf [THEN conjunct2] same ne moved
        opts' absent differs)+
qed

text \<open>
  C6 as stated fails on a command built from data without \<open>default_permission\<close>: its top-level
  option names \<open>add, remove\<close> are unique, and \<open>c.equals(c', false)\<close> is false for the
  permutation \<open>remove, add\<close>.
\<close>

theorem C6_option_order_counterexample:
  "distinct (map opt_name [example_add, example_remove])
   \<and> cmd_options example_unflagged_command = Some [example_add, example_remove]
   \<and> equals discord_env example_unflagged_command
        (example_unflagged_command\<lparr>cmd_options := Some [example_remove, example_add]\<rparr>) False
       = Inr False"
  by code_simp

text \<open>
  C7 (reflexivity), as amended. A well-formed command that carries its default-enabled flag
  equals itself, with and without \<open>enforceOptionOrder\<close>; a command whose flag is absent (built
  from data without \<open>default_permission\<close>, lines 95-101) does not equal itself: lines 262-263
  compare \<open>command.defaultPermission ?? command.default_permission ?? true\<close> with the
  undefined \<open>this.defaultPermission\<close>.
\<close>

theorem C7_equals_reflexive:
  "(wf_command c \<and> cmd_defaultPermission c \<noteq> None \<longrightarrow> equals env c c strict = Inr True)
   \<and> (cmd_defaultPermission c = None \<longrightarrow> equals env c c strict = Inr False)"
proof (intro conjI impI)
  assume wf: "wf_command c \<and> cmd_defaultPermission c \<noteq> None"
  then have "equals env c c strict =
     (case cmd_options c of
        None \<Rightarrow> Inr True
      | Some command_options \<Rightarrow>
          (case cmd_options c of
             None \<Rightarrow> Inl TypeError_undefined
           | Some this_options \<Rightarrow> Inr (optionsEqual env this_options command_options strict)))"
    by (intro equals_top_level) (auto simp: wf_command_def)
  with wf show "equals env c c strict = Inr True"
    by (cases "cmd_options c") (simp_all add: wf_command_def optionsEqual_refl)
next
  assume "cmd_defaultPermission c = None"
  then show "equals env c c strict = Inr False"
    by (cases "cmd_default_permission c") (simp_all add: equals_def Let_def)
qed

text \<open>
  C7 at the command with the subcommands \<open>add\<close> and \<open>remove\<close>, in both modes, with the
  flag and without it.
\<close>

theorem C7_equals_reflexive_witness:
  "(wf_command example_role_command \<and> cmd_defaultPermission example_role_command \<noteq> None)
   \<and> equals discord_env example_role_command example_role_command True = Inr True
   \<and> equals discord_env example_role_command example_role_command False = Inr True
   \<and> cmd_defaultPermission example_unflagged_command = None
   \<and> equals discord_env example_unflagged_command example_unflagged_command True = Inr False
   \<and> equals discord_env example_unflagged_command example_unflagged_command False = Inr False"
proof -
  have wf: "wf_command example_role_command \<and> cmd_defaultPermission example_role_command \<noteq> None"
    by (simp add: wf_command_def example_role_command_def example_command_def example_add_def
        example_remove_def example_role_def)
  have absent: "cmd_defaultPermission example_unflagged_command = None"
    by (simp add: example_unflagged_command_def)
  note same = C7_equals_reflexive [where c = example_role_command and env = discord_env,
      THEN conjunct1, THEN mp, OF wf]
  note differs = C7_equals_reflexive [where c = example_unflagged_command and env = discord_env,
      THEN conjunct2, THEN mp, OF absent]
  show ?thesis
    by (intro conjI) (rule wf [THEN conjunct1] wf [THEN conjunct2] same differs absent)+
qed

text \<open>
  C7 as stated fails on a well-formed command built from data without
  \<open>default_permission\<close>: it does not equal itself, in either mode.
\<close>

theorem C7_equals_reflexive_counterexample:
  "wf_command example_unflagged_command
   \<and> equals discord_env example_unflagged_command example_unflagged_command True = Inr False
   \<and> equals discord_env example_unflagged_command example_unflagged_command False = Inr False"
  by code_simp

text \<open>
  C8 (default-enabled flag), as amended. An absent flag of the command passed as argument
  (neither \<open>defaultPermission\<close> nor \<open>default_permission\<close>) is read as \<open>true\<close>:
  the result is that of the same argument with the flag \<open>true\<close>; so a well-formed
  command whose flag is \<open>true\<close> equals the argument that differs from it by the absent
  flag only. The flag of \<open>this\<close> is compared as it is stored.
\<close>

theorem C8_default_permission:
  "(cmd_defaultPermission command = None \<and> cmd_default_permission command = None \<longrightarrow>
      equals env this command strict
        = equals env this (command\<lparr>cmd_defaultPermission := Some True\<rparr>) strict)
   \<and> (wf_command c \<and> cmd_defaultPermission c = Some True \<longrightarrow>
        equals env c (c\<lparr>cmd_defaultPermission := None, cmd_default_permission := None\<rparr>) strict
          = Inr True)"
proof (intro conjI impI)
  assume "cmd_defaultPermission command = None \<and> cmd_default_permission command = None"
  then show "equals env this command strict
        = equals env this (command\<lparr>cmd_defaultPermission := Some True\<rparr>) strict"
  proof -
    assume "cmd_defaultPermission command = None \<and> cmd_default_permission command = None"
    then have absent: "cmd_defaultPermission command = None" "cmd_default_permission command = None"
      by simp_all
    let ?d = "command\<lparr>cmd_defaultPermission := Some True\<rparr>"
    have fields: "cmd_id ?d = cmd_id command" "cmd_type ?d = cmd_type command"
      "cmd_name ?d = cmd_name command" "cmd_description ?d = cmd_description command"
      "cmd_version ?d = cmd_version command" "cmd_autocomplete ?d = cmd_autocomplete command"
      "cmd_options ?d = cmd_options command" "cmd_defaultPermission ?d = Some True"
      by simp_all
    show ?thesis
      unfolding equals_def fields absent nullish.simps by (rule refl)
  qed
next
  assume a: "wf_command c \<and> cmd_defaultPermission c = Some True"
  let ?d = "c\<lparr>cmd_defaultPermission := None, cmd_default_permission := None\<rparr>"
  from a have "equals env c ?d strict =
     (case cmd_options ?d of
        None \<Rightarrow> Inr True
      | Some command_options \<Rightarrow>
          (case cmd_options c of
             None \<Rightarrow> Inl TypeError_undefined
           | Some this_options \<Rightarrow> Inr (optionsEqual env this_options command_options strict)))"
    by (intro equals_top_level) (auto simp: wf_command_def)
  with a show "equals env c ?d strict = Inr True"
    by (cases "cmd_options c") (simp_all add: wf_command_def optionsEqual_refl)
qed

text \<open>Both parts of C8 at the command with the subcommands \<open>add\<close> and \<open>remove\<close>.\<close>

theorem C8_default_permission_witness:
  "(cmd_defaultPermission (example_role_command\<lparr>cmd_defaultPermission := None\<rparr>) = None
      \<and> cmd_default_permission (example_role_command\<lparr>cmd_defaultPermission := None\<rparr>) = None)
   \<and> equals discord_env example_role_command (example_role_command\<lparr>cmd_defaultPermission := None\<rparr>) True
       = equals discord_env example_role_command
           (example_role_command\<lparr>cmd_defaultPermission := None, cmd_defaultPermission := Some True\<rparr>)
           True
   \<and> (wf_command example_role_command \<and> cmd_defaultPermission example_role_command = Some True)
   \<and> equals discord_env example_role_command
        (example_role_command\<lparr>cmd_defaultPermission := None, cmd_default_permission := None\<rparr>) True
       = Inr True"
proof -
  have absent: "cmd_defaultPermission (example_role_command\<lparr>cmd_defaultPermission := None\<rparr>) = None
      \<and> cmd_default_permission (example_role_command\<lparr>cmd_defaultPermission := None\<rparr>) = None"
    by (simp add: example_role_command_def example_command_def)
  have wf: "wf_command example_role_command \<and> cmd_defaultPermission example_role_command = Some True"
    by (simp add: wf_command_def example_role_command_def example_command_def example_add_def
        example_remove_def example_role_def)
  note a = C8_default_permission [where command = "example_role_command\<lparr>cmd_defaultPermission := None\<rparr>"
      and this = example_role_command and env = discord_env and strict = True,
      THEN conjunct1, THEN mp, OF absent]
  note b = C8_default_permission [where c = example_role_command and env = discord_env
      and strict = True, THEN conjunct2, THEN mp, OF wf]
  show ?thesis
    by (intro conjI) (use absent wf a b in simp_all)
qed

text \<open>
  C8 as stated (whichever side carries the absent flag) fails when \<open>this\<close> is the
  side without the flag: \<open>true !== undefined\<close> on lines 262-263, and the result is
  false; with the sides exchanged it is true.
\<close>

theorem C8_default_permission_counterexample:
  "equals discord_env
     (example_role_command\<lparr>cmd_defaultPermission := None\<rparr>) example_role_command False = Inr False
   \<and> equals discord_env
     example_role_command (example_role_command\<lparr>cmd_defaultPermission := None\<rparr>) False = Inr True"
  by code_simp

text \<open>
  C9 (frame of sendSlashCommand), as amended. The call leaves the command as it was. It
  leaves the caller's token array as it was when the command is not chat-input or has no
  subcommand among its top-level options; in the subcommand path it removes the first
  element of the caller's array (\<open>options.shift()\<close>, line 473) and leaves the rest,
  whether the call then posts or throws.
\<close>

theorem C9_token_array_frame:
  "out_this (sendSlashCommand env this message options) = this
   \<and> out_options (sendSlashCommand env this message options)
       = (if cmd_type this = JStr ''CHAT_INPUT''
             \<and> (\<exists>this_options. cmd_options this = Some this_options \<and> has_subcommand this_options)
          then tl options else options)"
proof
  show "out_this (sendSlashCommand env this message options) = this"
    by (simp add: sendSlashCommand_def Let_def split: option.splits)
  show "out_options (sendSlashCommand env this message options)
       = (if cmd_type this = JStr ''CHAT_INPUT''
             \<and> (\<exists>this_options. cmd_options this = Some this_options \<and> has_subcommand this_options)
          then tl options else options)"
  proof (cases "cmd_options this")
    case None
    then show ?thesis by (simp add: sendSlashCommand_def)
  next
    case (Some this_options)
    then show ?thesis
      by (simp add: sendSlashCommand_def has_subcommand_def Let_def)
  qed
qed

text \<open>
  C9 as stated (the token array has the same elements after the call as before,
  the subcommand path included) fails: after the call with the tokens \<open>add, 12345\<close>
  the caller's array is \<open>[12345]\<close>.
\<close>

theorem C9_token_array_counterexample:
  "out_options (sendSlashCommand discord_env example_role_command example_message
      [JStr ''add'', JStr ''12345'']) \<noteq> [JStr ''add'', JStr ''12345'']"
  by code_simp

text \<open>
  C10 (empty token in the subcommand path). With the subcommand test true, a step at an
  empty-string token goes on to the next position with \<open>optionFormat\<close> unchanged,
  whatever the option at that position is. So the names of the nested entries of a posted
  body are those of the subcommand's options at the positions whose token is not empty;
  and when every remaining token is empty, the body is posted with no nested entry, unless
  the option after the last token is required.
\<close>

theorem C10_empty_token_skipped:
  "(i < length options \<and> options ! i = JStr [] \<longrightarrow>
      slash_loop env this_options True subCommand options i optionFormat
        = slash_loop env this_options True subCommand options (Suc i) optionFormat)
   \<and> (cmd_type this = JStr ''CHAT_INPUT''
      \<and> cmd_options this = Some this_options
      \<and> has_subcommand this_options
      \<and> find (\<lambda>opt. opt_name opt = t) this_options = Some sc
      \<and> opt_options sc = Some sub_options \<longrightarrow>
        (\<forall>r. out_result (sendSlashCommand env this message (JStr t # rest)) = Inr r \<longrightarrow>
           (\<exists>entries.
              r = Posted (interaction_body env this message
                    [OptionGroup (ApplicationCommandOptionTypes env (opt_type sc)) t entries])
              \<and> map entry_name entries =
                  map (\<lambda>k. opt_name (sub_options ! k))
                    (filter (\<lambda>k. k < length sub_options \<and> rest ! k \<noteq> JStr [])
                       [0..<length rest])))
        \<and> ((\<forall>k. k < length rest \<longrightarrow> rest ! k = JStr [])
             \<and> \<not> (length rest < length sub_options
                    \<and> opt_required (sub_options ! length rest) = Some True) \<longrightarrow>
            out_result (sendSlashCommand env this message (JStr t # rest))
              = Inr (Posted (interaction_body env this message
                  [OptionGroup (ApplicationCommandOptionTypes env (opt_type sc)) t []]))))"
proof (intro conjI impI)
  assume "i < length options \<and> options ! i = JStr []"
  then show "slash_loop env this_options True subCommand options i optionFormat
        = slash_loop env this_options True subCommand options (Suc i) optionFormat"
    by (simp add: slash_loop_empty_token)
next
  assume a: "cmd_type this = JStr ''CHAT_INPUT''
      \<and> cmd_options this = Some this_options
      \<and> has_subcommand this_options
      \<and> find (\<lambda>opt. opt_name opt = t) this_options = Some sc
      \<and> opt_options sc = Some sub_options"
  then have chat: "cmd_type this = JStr ''CHAT_INPUT''"
    and opts: "cmd_options this = Some this_options"
    and has: "has_subcommand this_options"
    and found: "find (\<lambda>opt. opt_name opt = t) this_options = Some sc"
    and subs: "opt_options sc = Some sub_options"
    by simp_all
  from found have name: "opt_name sc = t" by (rule find_Some_name)
  show "\<forall>r. out_result (sendSlashCommand env this message (JStr t # rest)) = Inr r \<longrightarrow>
           (\<exists>entries.
              r = Posted (interaction_body env this message
                    [OptionGroup (ApplicationCommandOptionTypes env (opt_type sc)) t entries])
              \<and> map entry_name entries =
                  map (\<lambda>k. opt_name (sub_options ! k))
                    (filter (\<lambda>k. k < length sub_options \<and> rest ! k \<noteq> JStr [])
                       [0..<length rest]))"
  proof (intro allI impI)
    fix r
    assume "out_result (sendSlashCommand env this message (JStr t # rest)) = Inr r"
    from sendSlashCommand_sub_posted [OF chat opts has found this]
    obtain entries where loop: "slash_loop env this_options True (Some sc) rest 0 [] = Inr entries"
      and r: "r = Posted (interaction_body env this message
                [OptionGroup (ApplicationCommandOptionTypes env (opt_type sc)) (opt_name sc) entries])"
      by blast
    have "map Inr entries =
            map (\<lambda>k. option_data env (sub_options ! k) (token_string (rest ! k)))
              (filter (\<lambda>k. k < length sub_options \<and> rest ! k \<noteq> JStr []) [0..<length rest])"
      using slash_loop_sub_entries [OF loop subs] by simp
    then have "map entry_name entries =
                  map (\<lambda>k. opt_name (sub_options ! k))
                    (filter (\<lambda>k. k < length sub_options \<and> rest ! k \<noteq> JStr [])
                       [0..<length rest])"
      by (rule entries_names)
    with r name show "\<exists>entries.
              r = Posted (interaction_body env this message
                    [OptionGroup (ApplicationCommandOptionTypes env (opt_type sc)) t entries])
              \<and> map entry_name entries =
                  map (\<lambda>k. opt_name (sub_options ! k))
                    (filter (\<lambda>k. k < length sub_options \<and> rest ! k \<noteq> JStr [])
                       [0..<length rest])"
      by blast
  qed
  assume e: "(\<forall>k. k < length rest \<longrightarrow> rest ! k = JStr [])
             \<and> \<not> (length rest < length sub_options
                    \<and> opt_required (sub_options ! length rest) = Some True)"
  then have "\<exists>out. slash_loop env this_options True (Some sc) rest 0 [] = Inr out"
    by (intro slash_loop_sub_succeeds [OF subs]) auto
  then obtain out where loop: "slash_loop env this_options True (Some sc) rest 0 [] = Inr out" ..
  have "filter (\<lambda>k. k < length sub_options \<and> rest ! k \<noteq> JStr []) [0..<length rest] = []"
    using e by (intro filter_none) simp
  with slash_loop_sub_entries [OF loop subs] have "out = []" by simp
  with loop show "out_result (sendSlashCommand env this message (JStr t # rest))
              = Inr (Posted (interaction_body env this message
                  [OptionGroup (ApplicationCommandOptionTypes env (opt_type sc)) t []]))"
    using found subs e name by (simp add: sendSlashCommand_sub [OF chat opts has])
qed

text \<open>
  C10 at the example: the subcommand \<open>add\<close> has the required option \<open>role\<close> at position 0; the tokens
  \<open>add\<close> and the empty string post \<open>add\<close> with no nested entry.
\<close>

theorem C10_empty_token_skipped_witness:
  "(0 < length [JStr []] \<and> [JStr []] ! 0 = JStr [])
   \<and> slash_loop discord_env [example_add, example_remove] True (Some example_add) [JStr []] 0 []
       = slash_loop discord_env [example_add, example_remove] True (Some example_add) [JStr []]
           (Suc 0) []
   \<and> (cmd_type example_role_command = JStr ''CHAT_INPUT''
      \<and> cmd_options example_role_command = Some [example_add, example_remove]
      \<and> has_subcommand [example_add, example_remove]
      \<and> find (\<lambda>opt. opt_name opt = ''add'') [example_add, example_remove] = Some example_add
      \<and> opt_options example_add = Some [example_role])
   \<and> opt_required ([example_role] ! 0) = Some True
   \<and> out_result (sendSlashCommand discord_env example_role_command example_message
         [JStr ''add'', JStr []])
       = Inr (Posted (interaction_body discord_env example_role_command example_message
           [OptionGroup (JNum (Fin 1)) ''add'' []]))"
proof -
  have tok: "0 < length [JStr []] \<and> [JStr []] ! 0 = JStr []"
    by simp
  have cmd: "cmd_type example_role_command = JStr ''CHAT_INPUT''
      \<and> cmd_options example_role_command = Some [example_add, example_remove]
      \<and> has_subcommand [example_add, example_remove]
      \<and> find (\<lambda>opt. opt_name opt = ''add'') [example_add, example_remove] = Some example_add
      \<and> opt_options example_add = Some [example_role]"
    by (intro conjI) (rule example_role_command_fields example_role_command_sub)+
  have req: "opt_required ([example_role] ! 0) = Some True"
    by (simp add: example_role_def)
  note step = C10_empty_token_skipped [where i = 0 and options = "[JStr []]" and env = discord_env
      and this_options = "[example_add, example_remove]" and subCommand = "Some example_add"
      and optionFormat = "[]", THEN conjunct1, THEN mp, OF tok]
  note whole = C10_empty_token_skipped [where this = example_role_command and env = discord_env
      and this_options = "[example_add, example_remove]" and t = "''add''" and sc = example_add
      and sub_options = "[example_role]" and rest = "[JStr []]" and message = example_message,
      THEN conjunct2, THEN mp, OF cmd, THEN conjunct2, THEN mp]
  have posted: "out_result (sendSlashCommand discord_env example_role_command example_message
         [JStr ''add'', JStr []])
       = Inr (Posted (interaction_body discord_env example_role_command example_message
           [OptionGroup (JNum (Fin 1)) ''add'' []]))"
    using whole by (simp add: example_add_code)
  show ?thesis
    by (intro conjI) (use tok step cmd req posted in simp_all)
qed

end
